theory Spec2Isabelle
  imports Main
begin

section \<open>Go values used by the pipeline\<close>

text \<open>
  A Go \<^verbatim>\<open>error\<close> value is identified with the message its \<^verbatim>\<open>Error()\<close> method
  returns; the \<^verbatim>\<open>nil\<close> error is \<open>None\<close>.  \<^verbatim>\<open>fmt.Errorf("stage: %v", err)\<close> is
  then the message \<open>''stage: '' @ e\<close>.  An \<^verbatim>\<open>io.Writer\<close> is a handle: what is
  written to it belongs to the outside world.
\<close>

type_synonym error = string

type_synonym Writer = nat

text \<open>
  A Go call either returns or panics (an index out of range is a run-time panic).
\<close>

datatype 'a result = Return 'a | Panic

subsection \<open>strings.HasPrefix, strings.Index, strings.SplitN\<close>

definition HasPrefix :: "string \<Rightarrow> string \<Rightarrow> bool" where
  "HasPrefix s p = (take (length p) s = p)"

text \<open>\<^verbatim>\<open>strings.Index(s, sep)\<close>: the position of the first occurrence, \<open>None\<close> for Go's -1.\<close>

fun Index :: "string \<Rightarrow> string \<Rightarrow> nat option" where
  "Index [] sep = (if HasPrefix [] sep then Some 0 else None)"
| "Index (c # cs) sep =
     (if HasPrefix (c # cs) sep then Some 0 else map_option Suc (Index cs sep))"

text \<open>
  \<^verbatim>\<open>strings.SplitN(s, sep, n)\<close> for a non-empty separator and \<open>n \<ge> 0\<close>: no substrings for
  \<open>n = 0\<close>, otherwise at most \<open>n\<close> substrings, the last one the unsplit remainder.
\<close>

fun SplitN :: "string \<Rightarrow> string \<Rightarrow> nat \<Rightarrow> string list" where
  "SplitN s sep 0 = []"
| "SplitN s sep (Suc 0) = [s]"
| "SplitN s sep (Suc (Suc n)) =
     (case Index s sep of
        None \<Rightarrow> [s]
      | Some i \<Rightarrow> take i s # SplitN (drop (i + length sep) s) sep (Suc n))"

subsection \<open>The tag-not-found test\<close>

text \<open>
  \<^verbatim>\<open>var tagNotFoundRegex = regexp.MustCompile(`.*Tag (\S+) not found in repository (\S+)`)\<close>
  and \<^verbatim>\<open>tagNotFoundRegex.MatchString(err.Error())\<close>.  \<^verbatim>\<open>MatchString\<close> is not anchored, so
  the leading \<^verbatim>\<open>.*\<close> may match nothing and the test is: some suffix of the message starts
  with \<^verbatim>\<open>Tag \<close>, a non-empty run of non-space characters, the text
  \<^verbatim>\<open> not found in repository \<close> and one more non-space character.  The run before the
  text is the whole maximal run, since the text starts with a space.  Go's \<^verbatim>\<open>\s\<close> is
  tab, newline, form feed, carriage return and space.
\<close>

definition isSpace :: "char \<Rightarrow> bool" where
  "isSpace ch = (ch \<in> set [CHR 0x09, CHR 0x0A, CHR 0x0C, CHR 0x0D, CHR 0x20])"

definition matchHere :: "string \<Rightarrow> bool" where
  "matchHere s =
     (HasPrefix s ''Tag '' \<and>
      (let r = drop 4 s;
           x = takeWhile (\<lambda>ch. \<not> isSpace ch) r;
           r' = dropWhile (\<lambda>ch. \<not> isSpace ch) r
       in x \<noteq> [] \<and> HasPrefix r' '' not found in repository '' \<and>
          (case drop 25 r' of [] \<Rightarrow> False | ch # _ \<Rightarrow> \<not> isSpace ch)))"

fun MatchString :: "string \<Rightarrow> bool" where
  "MatchString [] = matchHere []"
| "MatchString (ch # cs) = (matchHere (ch # cs) \<or> MatchString cs)"

definition tagNotFound :: "error \<Rightarrow> bool" where
  "tagNotFound err = MatchString err"

section \<open>The collaborators and the record of their calls\<close>

record AuthConfiguration =
  Username :: string
  Password :: string

text \<open>
  An \<^verbatim>\<open>exec.Cmd\<close> as \<^verbatim>\<open>newCommand\<close> and its callers fill it: \<^verbatim>\<open>exec.Command(name, arg...)\<close>
  sets \<open>Path\<close> from the name and \<open>Args\<close> to the name followed by the arguments.
\<close>

record Cmd =
  Path :: string
  Args :: "string list"
  Dir :: string
  Stdout :: Writer
  Stderr :: Writer

text \<open>\<^verbatim>\<open>github.RepoStatus\<close>: the two fields the pipeline sets (State and Context).\<close>

record RepoStatus =
  State :: string
  StatusContext :: string

text \<open>
  One event per call that leaves the process, with the arguments of the call:
  \<^item> \<open>EvTempDir dir prefix\<close>: \<^verbatim>\<open>ioutil.TempDir(dir, prefix)\<close>;
  \<^item> \<open>EvRun cmd\<close>: \<^verbatim>\<open>cmd.Run()\<close>;
  \<^item> \<open>EvPullImage repository tag outputStream auth\<close>: \<^verbatim>\<open>docker.PullImage\<close> with
    \<^verbatim>\<open>PullImageOptions{Repository, Tag, OutputStream}\<close>;
  \<^item> \<open>EvInspectImage name\<close>: \<^verbatim>\<open>docker.InspectImage(name)\<close>;
  \<^item> \<open>EvTagImage name repo tag force\<close>: \<^verbatim>\<open>docker.TagImage(name, TagImageOptions{Repo, Tag, Force})\<close>;
  \<^item> \<open>EvPushImage name tag outputStream auth\<close>: \<^verbatim>\<open>docker.PushImage\<close> with
    \<^verbatim>\<open>PushImageOptions{Name, Tag, OutputStream}\<close>;
  \<^item> \<open>EvCreateStatus owner repo ref status\<close>: \<^verbatim>\<open>github.CreateStatus(owner, repo, ref, status)\<close>.
\<close>

datatype event =
    EvTempDir string string
  | EvRun Cmd
  | EvPullImage string string Writer AuthConfiguration
  | EvInspectImage string
  | EvTagImage string string string bool
  | EvPushImage string string Writer AuthConfiguration
  | EvCreateStatus string string string RepoStatus

type_synonym history = "event list"

text \<open>
  The outside world (file system, git and docker subprocesses, docker daemon, registry,
  GitHub) answers each call; its answer may depend on everything that was called before,
  so each collaborator is a function of the history of calls and of the arguments.  The
  image descriptor of \<^verbatim>\<open>InspectImage\<close> is its identifier.
\<close>

record env =
  os_TempDir :: "history \<Rightarrow> string \<Rightarrow> string \<Rightarrow> string \<times> error option"
  cmd_Run :: "history \<Rightarrow> Cmd \<Rightarrow> error option"
  docker_PullImage :: "history \<Rightarrow> string \<Rightarrow> string \<Rightarrow> Writer \<Rightarrow> AuthConfiguration \<Rightarrow> error option"
  docker_InspectImage :: "history \<Rightarrow> string \<Rightarrow> string option \<times> error option"
  docker_TagImage :: "history \<Rightarrow> string \<Rightarrow> string \<Rightarrow> string \<Rightarrow> bool \<Rightarrow> error option"
  docker_PushImage :: "history \<Rightarrow> string \<Rightarrow> string \<Rightarrow> Writer \<Rightarrow> AuthConfiguration \<Rightarrow> error option"
  github_CreateStatus :: "history \<Rightarrow> string \<Rightarrow> string \<Rightarrow> string \<Rightarrow> RepoStatus \<Rightarrow> error option"

section \<open>conveyor.go\<close>

definition Context :: string where
  "Context = ''container/docker''"

record BuildOptions =
  Repository :: string
  Commit :: string
  Branch :: string
  OutputStream :: Writer

record Conveyor =
  BuildDir :: string
  AuthConfiguration :: AuthConfiguration

text \<open>\<^verbatim>\<open>nullGitHubClient.CreateStatus\<close> prints a line and returns no error.\<close>

definition nullGitHubClient_CreateStatus ::
  "history \<Rightarrow> string \<Rightarrow> string \<Rightarrow> string \<Rightarrow> RepoStatus \<Rightarrow> error option" where
  "nullGitHubClient_CreateStatus h owner repo ref status = None"

definition newCommand :: "Writer \<Rightarrow> string \<Rightarrow> string list \<Rightarrow> Cmd" where
  "newCommand w nm arg = \<lparr>Path = nm, Args = nm # arg, Dir = [], Stdout = w, Stderr = w\<rparr>"

text \<open>
  \<^verbatim>\<open>updateStatus\<close>: \<^verbatim>\<open>parts[0]\<close> and \<^verbatim>\<open>parts[1]\<close> are evaluated before the call, so a
  repository without a separator panics before GitHub is called.  The status is
  \<^verbatim>\<open>&github.RepoStatus{State: &status, Context: &context}\<close>.
\<close>

definition updateStatus ::
  "env \<Rightarrow> string \<Rightarrow> string \<Rightarrow> string \<Rightarrow> history \<Rightarrow> error option result \<times> history" where
  "updateStatus e repo commit status h =
     (let context = Context;
          parts = SplitN repo ''/'' 2
      in if length parts < 2 then (Panic, h)
         else let st = \<lparr>State = status, StatusContext = context\<rparr>
              in (Return (github_CreateStatus e h (parts ! 0) (parts ! 1) commit st),
                  h @ [EvCreateStatus (parts ! 0) (parts ! 1) commit st]))"

definition run :: "env \<Rightarrow> Cmd \<Rightarrow> history \<Rightarrow> error option \<times> history" where
  "run e cmd h = (cmd_Run e h cmd, h @ [EvRun cmd])"

definition checkout ::
  "env \<Rightarrow> Conveyor \<Rightarrow> string \<Rightarrow> BuildOptions \<Rightarrow> history \<Rightarrow> error option \<times> history" where
  "checkout e c dir opts h =
     (let cmd = (newCommand (OutputStream opts) ''git''
                   [''clone'', ''--depth=50'', ''--branch='' @ Branch opts,
                    ''git://github.com/'' @ Repository opts @ ''.git'', dir])
                \<lparr>Dir := BuildDir c\<rparr>
      in case run e cmd h of
           (Some err, h1) \<Rightarrow> (Some err, h1)
         | (None, h1) \<Rightarrow>
             (let cmd2 = (newCommand (OutputStream opts) ''git''
                            [''checkout'', ''-qf'', Commit opts])
                         \<lparr>Dir := dir\<rparr>
              in run e cmd2 h1))"

definition pullTag ::
  "env \<Rightarrow> Conveyor \<Rightarrow> string \<Rightarrow> string \<Rightarrow> Writer \<Rightarrow> history \<Rightarrow> error option \<times> history" where
  "pullTag e c repo t w h =
     (docker_PullImage e h repo t w (AuthConfiguration c),
      h @ [EvPullImage repo t w (AuthConfiguration c)])"

text \<open>
  The loop of \<^verbatim>\<open>pullTags\<close>.  \<^verbatim>\<open>err\<close> is the named result: every pull assigns it, a
  bare \<^verbatim>\<open>return\<close> returns its current value, and so does the \<^verbatim>\<open>return\<close> after the loop.
\<close>

fun pullTags_loop ::
  "env \<Rightarrow> Conveyor \<Rightarrow> string \<Rightarrow> Writer \<Rightarrow> string list \<Rightarrow> error option \<Rightarrow> history
     \<Rightarrow> error option \<times> history" where
  "pullTags_loop e c repo w [] err h = (err, h)"
| "pullTags_loop e c repo w (t # ts) err h =
     (case pullTag e c repo t w h of
        (Some err', h') \<Rightarrow>
          if tagNotFound err' then pullTags_loop e c repo w ts (Some err') h'
          else (Some err', h')
      | (None, h') \<Rightarrow> (None, h'))"

definition pullTags ::
  "env \<Rightarrow> Conveyor \<Rightarrow> string \<Rightarrow> Writer \<Rightarrow> string list \<Rightarrow> history \<Rightarrow> error option \<times> history" where
  "pullTags e c repo w tags h = pullTags_loop e c repo w tags None h"

definition pull :: "env \<Rightarrow> Conveyor \<Rightarrow> BuildOptions \<Rightarrow> history \<Rightarrow> error option \<times> history" where
  "pull e c opts h = pullTags e c (Repository opts) (OutputStream opts) [Branch opts, ''latest''] h"

definition build ::
  "env \<Rightarrow> Conveyor \<Rightarrow> string \<Rightarrow> BuildOptions \<Rightarrow> history
     \<Rightarrow> (string option \<times> error option) \<times> history" where
  "build e c dir opts h =
     (let cmd = (newCommand (OutputStream opts) ''docker''
                   [''build'', ''-t'', Repository opts, ''.''])
                \<lparr>Dir := dir\<rparr>
      in case run e cmd h of
           (Some err, h1) \<Rightarrow> ((None, Some err), h1)
         | (None, h1) \<Rightarrow>
             (docker_InspectImage e h1 (Repository opts),
              h1 @ [EvInspectImage (Repository opts)]))"

fun push ::
  "env \<Rightarrow> Conveyor \<Rightarrow> string \<Rightarrow> Writer \<Rightarrow> string list \<Rightarrow> history \<Rightarrow> error option \<times> history" where
  "push e c img w [] h = (None, h)"
| "push e c img w (t # ts) h =
     (case docker_PushImage e h img t w (AuthConfiguration c) of
        Some err \<Rightarrow> (Some err, h @ [EvPushImage img t w (AuthConfiguration c)])
      | None \<Rightarrow> push e c img w ts (h @ [EvPushImage img t w (AuthConfiguration c)]))"

fun tag :: "env \<Rightarrow> Conveyor \<Rightarrow> string \<Rightarrow> string list \<Rightarrow> history \<Rightarrow> error option \<times> history" where
  "tag e c img [] h = (None, h)"
| "tag e c img (t # ts) h =
     (case docker_TagImage e h img img t True of
        Some err \<Rightarrow> (Some err, h @ [EvTagImage img img t True])
      | None \<Rightarrow> tag e c img ts (h @ [EvTagImage img img t True]))"

text \<open>
  The statements of \<^verbatim>\<open>Build\<close> between the \<^verbatim>\<open>defer\<close> and the end of the function.
  The result is whether the body panicked, the value of the named result \<^verbatim>\<open>err\<close> when
  the body is left, and the history.  When \<^verbatim>\<open>updateStatus\<close> panics the assignment to
  \<^verbatim>\<open>err\<close> does not happen, so \<^verbatim>\<open>err\<close> is still the \<^verbatim>\<open>nil\<close> of \<^verbatim>\<open>TempDir\<close>.
\<close>

definition Build_body ::
  "env \<Rightarrow> Conveyor \<Rightarrow> BuildOptions \<Rightarrow> history \<Rightarrow> bool \<times> error option \<times> history" where
  "Build_body e c opts h =
     (let h1 = h @ [EvTempDir (BuildDir c) (Commit opts)]
      in case os_TempDir e h (BuildDir c) (Commit opts) of
        (dir, Some err) \<Rightarrow> (False, Some (''tempdir: '' @ err), h1)
      | (dir, None) \<Rightarrow>
        (case updateStatus e (Repository opts) (Commit opts) ''pending'' h1 of
           (Panic, h2) \<Rightarrow> (True, None, h2)
         | (Return (Some err), h2) \<Rightarrow> (False, Some (''status: '' @ err), h2)
         | (Return None, h2) \<Rightarrow>
           (case checkout e c dir opts h2 of
              (Some err, h3) \<Rightarrow> (False, Some (''checkout: '' @ err), h3)
            | (None, h3) \<Rightarrow>
              (case pull e c opts h3 of
                 (Some err, h4) \<Rightarrow> (False, Some (''pull: '' @ err), h4)
               | (None, h4) \<Rightarrow>
                 (case build e c dir opts h4 of
                    ((_, Some err), h5) \<Rightarrow> (False, Some (''build: '' @ err), h5)
                  | ((_, None), h5) \<Rightarrow>
                    (let tags = [Branch opts, Commit opts]
                     in case tag e c (Repository opts) tags h5 of
                          (Some err, h6) \<Rightarrow> (False, Some (''tag: '' @ err), h6)
                        | (None, h6) \<Rightarrow>
                          (case push e c (Repository opts) (OutputStream opts)
                                  ([''latest''] @ tags) h6 of
                             (Some err, h7) \<Rightarrow> (False, Some (''push: '' @ err), h7)
                           | (None, h7) \<Rightarrow> (False, None, h7))))))))"

text \<open>
  \<^verbatim>\<open>Build\<close>: the body, then the deferred function, which runs on a return and on a
  panic alike, reads \<^verbatim>\<open>err\<close> and drops what \<^verbatim>\<open>updateStatus\<close> returns.  A panic of the
  body or of the deferred call leaves \<^verbatim>\<open>Build\<close> panicking.
\<close>

definition Build ::
  "env \<Rightarrow> Conveyor \<Rightarrow> BuildOptions \<Rightarrow> history \<Rightarrow> error option result \<times> history" where
  "Build e c opts h =
     (case Build_body e c opts h of
        (panicked, err, h1) \<Rightarrow>
          (let status = (if err \<noteq> None then ''error'' else ''success'')
           in case updateStatus e (Repository opts) (Commit opts) status h1 of
                (r, h2) \<Rightarrow> (if panicked \<or> r = Panic then Panic else Return err, h2)))"

section \<open>Log files in S3 (package s3)\<close>

subsection \<open>filepath.Join and filepath.Clean\<close>

text \<open>
  Go's \<^verbatim>\<open>path/filepath\<close> on a system whose separator is \<^verbatim>\<open>/\<close>.  \<^verbatim>\<open>Clean\<close> works on the
  elements between separators: an empty element and \<^verbatim>\<open>.\<close> are dropped, \<^verbatim>\<open>..\<close> removes the
  element before it when there is one that is not itself \<^verbatim>\<open>..\<close>, is kept at the start of
  a relative path and dropped at the root; the empty result is \<^verbatim>\<open>.\<close>.  \<^verbatim>\<open>Join\<close> skips
  leading empty elements, joins the rest with the separator and cleans the result.
\<close>

fun splitSlash :: "string \<Rightarrow> string list" where
  "splitSlash [] = [[]]"
| "splitSlash (ch # cs) =
     (if ch = CHR ''/'' then [] # splitSlash cs
      else (case splitSlash cs of [] \<Rightarrow> [[ch]] | x # xs \<Rightarrow> (ch # x) # xs))"

fun joinSlash :: "string list \<Rightarrow> string" where
  "joinSlash [] = []"
| "joinSlash [x] = x"
| "joinSlash (x # y # ys) = x @ ''/'' @ joinSlash (y # ys)"

fun cleanElems :: "bool \<Rightarrow> string list \<Rightarrow> string list \<Rightarrow> string list" where
  "cleanElems rooted out [] = out"
| "cleanElems rooted out (x # xs) =
     (if x = [] \<or> x = ''.'' then cleanElems rooted out xs
      else if x = ''..'' then
        (if out \<noteq> [] \<and> last out \<noteq> ''..'' then cleanElems rooted (butlast out) xs
         else if rooted then cleanElems rooted out xs
         else cleanElems rooted (out @ [''..'']) xs)
      else cleanElems rooted (out @ [x]) xs)"

definition filepath_Clean :: "string \<Rightarrow> string" where
  "filepath_Clean path =
     (case path of
        [] \<Rightarrow> ''.''
      | ch # _ \<Rightarrow>
          (let rooted = (ch = CHR ''/'');
               out = joinSlash (cleanElems rooted [] (splitSlash path))
           in if rooted then CHR ''/'' # out
              else if out = [] then ''.'' else out))"

fun filepath_Join :: "string list \<Rightarrow> string" where
  "filepath_Join [] = []"
| "filepath_Join (x # xs) =
     (if x = [] then filepath_Join xs else filepath_Clean (joinSlash (x # xs)))"

subsection \<open>Logs and its writer\<close>

text \<open>
  \<^verbatim>\<open>s3.PutObjectInput\<close> with the fields \<^verbatim>\<open>Close\<close> sets.  The S3 client answers a
  \<^verbatim>\<open>PutObject\<close> from the objects put so far and the new input; a \<^verbatim>\<open>bytes.Buffer\<close> is
  the list of its bytes.
\<close>

record PutObjectInput =
  Bucket :: string
  Key :: string
  ACL :: string
  Body :: string
  ContentLength :: int
  ContentType :: string

type_synonym s3_client = "PutObjectInput list \<Rightarrow> PutObjectInput \<Rightarrow> error option"

record Logs =
  Bucket :: string
  client :: s3_client

record writer =
  b :: string
  bucket :: string
  name :: string
  client :: s3_client

text \<open>\<^verbatim>\<open>Logs.Create\<close> returns the writer and a \<^verbatim>\<open>nil\<close> error.\<close>

definition Create :: "Logs \<Rightarrow> string \<Rightarrow> writer \<times> error option" where
  "Create l nm =
     (let nm' = filepath_Join [''logs'', nm @ ''.txt'']
      in (\<lparr>b = [], bucket = Logs.Bucket l, name = nm', client = Logs.client l\<rparr>, None))"

text \<open>\<^verbatim>\<open>Logs.Open\<close> returns a \<^verbatim>\<open>nil\<close> reader and an error.\<close>

definition Open :: "Logs \<Rightarrow> string \<Rightarrow> string option \<times> error option" where
  "Open l nm = (None, Some ''s3 logs: read is not implemented yet'')"

text \<open>\<^verbatim>\<open>writer.Write\<close>: \<^verbatim>\<open>bytes.Buffer.Write\<close> appends and returns the length and \<^verbatim>\<open>nil\<close>.\<close>

definition Write :: "writer \<Rightarrow> string \<Rightarrow> writer \<times> nat \<times> error option" where
  "Write l p = (l\<lparr>b := b l @ p\<rparr>, length p, None)"

definition Close :: "writer \<Rightarrow> PutObjectInput list \<Rightarrow> error option \<times> PutObjectInput list" where
  "Close l h =
     (let inp = \<lparr>PutObjectInput.Bucket = bucket l, Key = name l, ACL = ''public-read'', Body = b l,
                 ContentLength = int (length (b l)), ContentType = ''text/plain''\<rparr>
      in (writer.client l h inp, h @ [inp]))"

text \<open>Writing the chunks \<open>ps\<close> one after the other.\<close>

definition writeAll :: "writer \<Rightarrow> string list \<Rightarrow> writer" where
  "writeAll l ps = foldl (\<lambda>l' p. fst (Write l' p)) l ps"

section \<open>Notions the properties are stated with\<close>

text \<open>The events of pulling, tagging and pushing the tags \<open>ts\<close> in their order.\<close>

definition pullEvents :: "Conveyor \<Rightarrow> string \<Rightarrow> Writer \<Rightarrow> string list \<Rightarrow> history" where
  "pullEvents c repo w ts = map (\<lambda>t. EvPullImage repo t w (AuthConfiguration c)) ts"

definition tagEvents :: "string \<Rightarrow> string list \<Rightarrow> history" where
  "tagEvents img ts = map (\<lambda>t. EvTagImage img img t True) ts"

definition pushEvents :: "Conveyor \<Rightarrow> string \<Rightarrow> Writer \<Rightarrow> string list \<Rightarrow> history" where
  "pushEvents c img w ts = map (\<lambda>t. EvPushImage img t w (AuthConfiguration c)) ts"

text \<open>
  When \<open>ts\<close> are pulled one after the other from history \<open>h\<close>, the pull of the \<open>i\<close>-th
  candidate fails with a tag-not-found error.
\<close>

definition missAt ::
  "env \<Rightarrow> Conveyor \<Rightarrow> string \<Rightarrow> Writer \<Rightarrow> history \<Rightarrow> string list \<Rightarrow> nat \<Rightarrow> bool" where
  "missAt e c repo w h ts i =
     (case docker_PullImage e (h @ pullEvents c repo w (take i ts)) repo (ts ! i) w
             (AuthConfiguration c) of
        None \<Rightarrow> False
      | Some x \<Rightarrow> tagNotFound x)"

text \<open>The states reported to GitHub, the tag calls and the push calls of a history.\<close>

fun statusOf :: "event \<Rightarrow> string list" where
  "statusOf (EvCreateStatus ow r ref st) = [State st]"
| "statusOf _ = []"

fun tagOf :: "event \<Rightarrow> event list" where
  "tagOf (EvTagImage n r t f) = [EvTagImage n r t f]"
| "tagOf _ = []"

fun pushOf :: "event \<Rightarrow> event list" where
  "pushOf (EvPushImage n t w a) = [EvPushImage n t w a]"
| "pushOf _ = []"

definition statuses :: "history \<Rightarrow> string list" where
  "statuses h = concat (map statusOf h)"

definition tagCalls :: "history \<Rightarrow> history" where
  "tagCalls h = concat (map tagOf h)"

definition pushCalls :: "history \<Rightarrow> history" where
  "pushCalls h = concat (map pushOf h)"

text \<open>
  A name is plain when none of its directory elements (the elements before its last
  separator) is empty, \<^verbatim>\<open>.\<close> or \<^verbatim>\<open>..\<close>.
\<close>

definition plainName :: "string \<Rightarrow> bool" where
  "plainName nm = list_all (\<lambda>x. x \<noteq> [] \<and> x \<noteq> ''.'' \<and> x \<noteq> ''..'') (butlast (splitSlash nm))"

section \<open>Example builds\<close>

definition auth0 :: AuthConfiguration where
  "auth0 = \<lparr>Username = ''builder'', Password = ''secret''\<rparr>"

definition conveyor0 :: Conveyor where
  "conveyor0 = \<lparr>BuildDir = ''/builds'', AuthConfiguration = auth0\<rparr>"

definition opts0 :: BuildOptions where
  "opts0 = \<lparr>Repository = ''acme/widgets'', Commit = ''abc123'', Branch = ''main'',
            OutputStream = 1\<rparr>"

text \<open>Every collaborator succeeds; GitHub is the null client.\<close>

definition env_ok :: env where
  "env_ok =
     \<lparr>os_TempDir = (\<lambda>h d p. (d @ ''/'' @ p @ ''0001'', None)),
      cmd_Run = (\<lambda>h cmd. None),
      docker_PullImage = (\<lambda>h repo t w a. None),
      docker_InspectImage = (\<lambda>h n. (Some ''sha256:0'', None)),
      docker_TagImage = (\<lambda>h n repo t f. None),
      docker_PushImage = (\<lambda>h n t w a. None),
      github_CreateStatus = nullGitHubClient_CreateStatus\<rparr>"

text \<open>The registry holds no image of the repository yet.\<close>

definition env_no_image :: env where
  "env_no_image = env_ok
     \<lparr>docker_PullImage := (\<lambda>h repo t w a.
        Some (''Error: Tag '' @ t @ '' not found in repository '' @ repo))\<rparr>"

text \<open>The registry holds the tag \<^verbatim>\<open>latest\<close> only.\<close>

definition env_latest_only :: env where
  "env_latest_only = env_ok
     \<lparr>docker_PullImage := (\<lambda>h repo t w a.
        if t = ''latest'' then None
        else Some (''Error: Tag '' @ t @ '' not found in repository '' @ repo))\<rparr>"

text \<open>The registry refuses the credentials.\<close>

definition env_unauthorized :: env where
  "env_unauthorized = env_ok
     \<lparr>docker_PullImage := (\<lambda>h repo t w a. Some ''unauthorized: authentication required'')\<rparr>"

text \<open>The build root cannot be written.\<close>

definition env_no_tempdir :: env where
  "env_no_tempdir = env_ok
     \<lparr>os_TempDir := (\<lambda>h d p. ([], Some ''mkdir /builds/abc123: permission denied''))\<rparr>"

text \<open>One failing stage each: checkout, build, tag (of the commit tag), push (of the branch tag).\<close>

definition env_checkout_fails :: env where
  "env_checkout_fails = env_ok
     \<lparr>cmd_Run := (\<lambda>h cmd. if Path cmd = ''git'' then Some ''exit status 128'' else None)\<rparr>"

definition env_build_fails :: env where
  "env_build_fails = env_ok
     \<lparr>cmd_Run := (\<lambda>h cmd. if Path cmd = ''docker'' then Some ''exit status 1'' else None)\<rparr>"

definition env_tag_fails :: env where
  "env_tag_fails = env_ok
     \<lparr>docker_TagImage := (\<lambda>h n repo t f. if t = ''abc123'' then Some ''no such image'' else None)\<rparr>"

definition env_push_fails :: env where
  "env_push_fails = env_ok
     \<lparr>docker_PushImage := (\<lambda>h n t w a. if t = ''main'' then Some ''connection reset'' else None)\<rparr>"

text \<open>GitHub accepts the pending status and fails on every later one.\<close>

definition env_status_down :: env where
  "env_status_down = env_ok
     \<lparr>github_CreateStatus := (\<lambda>h ow r ref st.
        if State st = ''pending'' then None else Some ''502 Bad Gateway'')\<rparr>"

text \<open>A log store that accepts every object.\<close>

definition logs0 :: Logs where
  "logs0 = \<lparr>Bucket = ''conveyor-logs'', client = (\<lambda>h inp. None)\<rparr>"

section \<open>Properties\<close>

subsection \<open>The fallback pull\<close>

lemma pullEvents_simps:
  "pullEvents c repo w [] = []"
  "pullEvents c repo w (t # ts) = EvPullImage repo t w (AuthConfiguration c) # pullEvents c repo w ts"
  "pullEvents c repo w (xs @ ys) = pullEvents c repo w xs @ pullEvents c repo w ys"
  by (simp_all add: pullEvents_def)

lemma missAt_Cons:
  "missAt e c repo w h (t # ts) 0 =
     (case docker_PullImage e h repo t w (AuthConfiguration c) of
        None \<Rightarrow> False | Some x \<Rightarrow> tagNotFound x)"
  "missAt e c repo w h (t # ts) (Suc i) =
     missAt e c repo w (h @ [EvPullImage repo t w (AuthConfiguration c)]) ts i"
  by (simp_all add: missAt_def pullEvents_simps)

text \<open>
  After a run of misses the loop stands at the rest of the candidates, with the last
  miss in \<^verbatim>\<open>err\<close>.
\<close>

lemma pullTags_loop_misses:
  assumes "\<forall>i<length pre. missAt e c repo w h pre i"
  shows "\<exists>err'. pullTags_loop e c repo w (pre @ rest) err h =
                  pullTags_loop e c repo w rest err' (h @ pullEvents c repo w pre)
              \<and> (pre = [] \<longrightarrow> err' = err)
              \<and> (pre \<noteq> [] \<longrightarrow> (\<exists>x. err' = Some x \<and> tagNotFound x))"
  using assms
proof (induction pre arbitrary: h err)
  case Nil
  then show ?case by (simp add: pullEvents_simps)
next
  case (Cons t pre)
  let ?h' = "h @ [EvPullImage repo t w (AuthConfiguration c)]"
  from Cons.prems have "missAt e c repo w h (t # pre) 0" by auto
  then obtain x where x: "docker_PullImage e h repo t w (AuthConfiguration c) = Some x" "tagNotFound x"
    by (auto simp: missAt_Cons split: option.splits)
  have "\<forall>i<length pre. missAt e c repo w ?h' pre i"
    using Cons.prems by (auto simp: missAt_Cons[symmetric])
  from Cons.IH[OF this, of "Some x"] obtain err' where
    e: "pullTags_loop e c repo w (pre @ rest) (Some x) ?h' =
          pullTags_loop e c repo w rest err' (?h' @ pullEvents c repo w pre)"
       "pre = [] \<longrightarrow> err' = Some x" "pre \<noteq> [] \<longrightarrow> (\<exists>x. err' = Some x \<and> tagNotFound x)"
    by blast
  show ?case using x e by (auto simp: pullTag_def pullEvents_simps)
qed

lemma pullTags_loop_history:
  "\<exists>n\<le>length ts. snd (pullTags_loop e c repo w ts err h) = h @ pullEvents c repo w (take n ts)"
proof (induction ts arbitrary: h err)
  case Nil
  then show ?case by (simp add: pullEvents_simps)
next
  case (Cons t ts)
  let ?h' = "h @ [EvPullImage repo t w (AuthConfiguration c)]"
  show ?case
  proof (cases "\<exists>x. docker_PullImage e h repo t w (AuthConfiguration c) = Some x \<and> tagNotFound x")
    case True
    then obtain x where x: "docker_PullImage e h repo t w (AuthConfiguration c) = Some x" "tagNotFound x"
      by blast
    from Cons.IH[of "Some x" ?h'] obtain n where
      "n \<le> length ts"
      "snd (pullTags_loop e c repo w ts (Some x) ?h') = ?h' @ pullEvents c repo w (take n ts)"
      by blast
    then have "Suc n \<le> length (t # ts) \<and>
       snd (pullTags_loop e c repo w (t # ts) err h) = h @ pullEvents c repo w (take (Suc n) (t # ts))"
      using x by (simp add: pullTag_def pullEvents_simps)
    then show ?thesis by blast
  next
    case False
    then have "snd (pullTags_loop e c repo w (t # ts) err h) =
                 h @ pullEvents c repo w (take (Suc 0) (t # ts))"
      by (auto simp: pullTag_def pullEvents_simps split: option.splits)
    then show ?thesis by (intro exI[of _ "Suc 0"]) simp
  qed
qed

text \<open>
  C4.  When the candidates before \<open>t\<close> are misses and the pull of \<open>t\<close> fails with an error
  that is not a tag-not-found error, \<open>pullTags\<close> returns that error, and the pulls made are
  those of the candidates up to \<open>t\<close>: no candidate after \<open>t\<close> is attempted.
\<close>

theorem pullTags_other_error_stops:
  "(\<forall>i<length pre. missAt e c repo w h pre i) \<Longrightarrow>
   docker_PullImage e (h @ pullEvents c repo w pre) repo t w (AuthConfiguration c) = Some x \<Longrightarrow>
   \<not> tagNotFound x \<Longrightarrow>
   pullTags e c repo w (pre @ t # post) h = (Some x, h @ pullEvents c repo w (pre @ [t]))"
proof -
  assume m: "\<forall>i<length pre. missAt e c repo w h pre i"
    and x: "docker_PullImage e (h @ pullEvents c repo w pre) repo t w (AuthConfiguration c) = Some x"
           "\<not> tagNotFound x"
  from pullTags_loop_misses[OF m, of "t # post" None] obtain err' where
    "pullTags_loop e c repo w (pre @ t # post) None h =
       pullTags_loop e c repo w (t # post) err' (h @ pullEvents c repo w pre)"
    by blast
  then show ?thesis using x by (simp add: pullTags_def pullTag_def pullEvents_simps)
qed

theorem pullTags_other_error_stops_witness:
  "\<not> tagNotFound ''unauthorized: authentication required'' \<and>
   pullTags env_unauthorized conveyor0 ''acme/widgets'' 1 [''main'', ''latest''] [] =
     (Some ''unauthorized: authentication required'',
      [EvPullImage ''acme/widgets'' ''main'' 1 (AuthConfiguration conveyor0)])"
proof -
  have x: "docker_PullImage env_unauthorized ([] @ pullEvents conveyor0 ''acme/widgets'' 1 [])
             ''acme/widgets'' ''main'' 1 (AuthConfiguration conveyor0)
           = Some ''unauthorized: authentication required''"
    by code_simp
  have n: "\<not> tagNotFound ''unauthorized: authentication required''"
    by code_simp
  have m: "\<forall>i<length ([]::string list). missAt env_unauthorized conveyor0 ''acme/widgets'' 1 [] [] i"
    by simp
  from pullTags_other_error_stops[OF m x n, of "[''latest'']"] n
  show ?thesis by (simp add: pullEvents_def)
qed

text \<open>
  C5.  The pulls \<open>pullTags\<close> makes are those of the first \<open>n\<close> candidates, in the order of
  the list and one pull per position.  When the candidates before \<open>t\<close> are misses and the
  pull of \<open>t\<close> succeeds, \<open>pullTags\<close> returns no error and the pulls made are those of the
  candidates up to \<open>t\<close>.  \<open>pull\<close> passes the branch and then \<^verbatim>\<open>latest\<close>; when the pull of the
  branch is a miss and the pull of \<^verbatim>\<open>latest\<close> succeeds, both are pulled in that order and
  no error is returned.
\<close>

theorem pullTags_order_first_success:
  "(\<exists>n\<le>length ts. snd (pullTags e c repo w ts h) = h @ pullEvents c repo w (take n ts)) \<and>
   ((\<forall>i<length pre. missAt e c repo w h pre i) \<and>
    docker_PullImage e (h @ pullEvents c repo w pre) repo t w (AuthConfiguration c) = None
    \<longrightarrow> pullTags e c repo w (pre @ t # post) h = (None, h @ pullEvents c repo w (pre @ [t]))) \<and>
   pull e c opts h =
     pullTags e c (Repository opts) (OutputStream opts) [Branch opts, ''latest''] h \<and>
   (missAt e c (Repository opts) (OutputStream opts) h [Branch opts] 0 \<and>
    docker_PullImage e
      (h @ [EvPullImage (Repository opts) (Branch opts) (OutputStream opts) (AuthConfiguration c)])
      (Repository opts) ''latest'' (OutputStream opts) (AuthConfiguration c) = None
    \<longrightarrow> pull e c opts h =
          (None, h @ [EvPullImage (Repository opts) (Branch opts) (OutputStream opts) (AuthConfiguration c),
                      EvPullImage (Repository opts) ''latest'' (OutputStream opts) (AuthConfiguration c)]))"
proof -
  have first: "pullTags e c repo w (pre @ t # post) h = (None, h @ pullEvents c repo w (pre @ [t]))"
    if m: "\<forall>i<length pre. missAt e c repo w h pre i"
      and x: "docker_PullImage e (h @ pullEvents c repo w pre) repo t w (AuthConfiguration c) = None"
    for e c repo w h pre t post
  proof -
    from pullTags_loop_misses[OF m, of "t # post" None] obtain err' where
      "pullTags_loop e c repo w (pre @ t # post) None h =
         pullTags_loop e c repo w (t # post) err' (h @ pullEvents c repo w pre)"
      by blast
    then show ?thesis using x by (simp add: pullTags_def pullTag_def pullEvents_simps)
  qed
  have A: "\<exists>n\<le>length ts. snd (pullTags e c repo w ts h) = h @ pullEvents c repo w (take n ts)"
    unfolding pullTags_def by (rule pullTags_loop_history)
  have B: "(\<forall>i<length pre. missAt e c repo w h pre i) \<and>
      docker_PullImage e (h @ pullEvents c repo w pre) repo t w (AuthConfiguration c) = None
      \<longrightarrow> pullTags e c repo w (pre @ t # post) h = (None, h @ pullEvents c repo w (pre @ [t]))"
    using first by blast
  have C: "pull e c opts h =
     pullTags e c (Repository opts) (OutputStream opts) [Branch opts, ''latest''] h"
    by (simp add: pull_def)
  have D: "missAt e c (Repository opts) (OutputStream opts) h [Branch opts] 0 \<and>
    docker_PullImage e
      (h @ [EvPullImage (Repository opts) (Branch opts) (OutputStream opts) (AuthConfiguration c)])
      (Repository opts) ''latest'' (OutputStream opts) (AuthConfiguration c) = None
    \<longrightarrow> pull e c opts h =
          (None, h @ [EvPullImage (Repository opts) (Branch opts) (OutputStream opts) (AuthConfiguration c),
                      EvPullImage (Repository opts) ''latest'' (OutputStream opts) (AuthConfiguration c)])"
    using first[of "[Branch opts]" e c "Repository opts" "OutputStream opts" h "''latest''" "[]"]
    by (simp add: pull_def pullEvents_simps)
  from A B C D show ?thesis by blast
qed

theorem pullTags_order_first_success_witness:
  "missAt env_latest_only conveyor0 ''acme/widgets'' 1 [] [''main''] 0 \<and>
   docker_PullImage env_latest_only
     [EvPullImage ''acme/widgets'' ''main'' 1 (AuthConfiguration conveyor0)]
     ''acme/widgets'' ''latest'' 1 (AuthConfiguration conveyor0) = None \<and>
   pullTags env_latest_only conveyor0 ''acme/widgets'' 1 [''main'', ''latest''] [] =
     (None, [EvPullImage ''acme/widgets'' ''main'' 1 (AuthConfiguration conveyor0),
             EvPullImage ''acme/widgets'' ''latest'' 1 (AuthConfiguration conveyor0)])"
proof -
  have m0: "missAt env_latest_only conveyor0 ''acme/widgets'' 1 [] [''main''] 0"
    by code_simp
  have x: "docker_PullImage env_latest_only
     [EvPullImage ''acme/widgets'' ''main'' 1 (AuthConfiguration conveyor0)]
     ''acme/widgets'' ''latest'' 1 (AuthConfiguration conveyor0) = None"
    by code_simp
  have m: "\<forall>i<length [''main'']. missAt env_latest_only conveyor0 ''acme/widgets'' 1 [] [''main''] i"
    using m0 by simp
  have x': "docker_PullImage env_latest_only ([] @ pullEvents conveyor0 ''acme/widgets'' 1 [''main''])
     ''acme/widgets'' ''latest'' 1 (AuthConfiguration conveyor0) = None"
    using x by (simp add: pullEvents_def)
  from pullTags_order_first_success[of "[]" env_latest_only conveyor0 "''acme/widgets''" 1 "[]"
          "[''main'']" "''latest''" "[]" opts0] m x'
  have "pullTags env_latest_only conveyor0 ''acme/widgets'' 1 ([''main''] @ ''latest'' # []) [] =
          (None, [] @ pullEvents conveyor0 ''acme/widgets'' 1 ([''main''] @ [''latest'']))"
    by blast
  then show ?thesis using m0 x by (simp add: pullEvents_def)
qed

text \<open>
  When every candidate of a non-empty list is a miss, the loop ends with the last miss in
  \<^verbatim>\<open>err\<close> and \<open>pullTags\<close> returns it.
\<close>

lemma pullTags_all_misses:
  assumes "ts \<noteq> []" and "\<forall>i<length ts. missAt e c repo w h ts i"
  shows "\<exists>x. pullTags e c repo w ts h = (Some x, h @ pullEvents c repo w ts) \<and> tagNotFound x"
  using assms(1) pullTags_loop_misses[OF assms(2), of "[]" None]
  by (auto simp: pullTags_def)

text \<open>
  C1.  With no image of the repository in the registry both candidate pulls are misses.
  \<open>pullTags\<close> then returns the error of the last pull, since the \<^verbatim>\<open>return\<close> after the loop
  returns the named result \<^verbatim>\<open>err\<close> that the last pull assigned, and \<open>Build\<close> stops with
  a pull error before the build stage: no \<^verbatim>\<open>docker build\<close> is run and the status
  reported last is \<^verbatim>\<open>error\<close>.
\<close>

theorem pullTags_all_misses_returns_last_error:
  "tagNotFound ''Error: Tag main not found in repository acme/widgets'' \<and>
   tagNotFound ''Error: Tag latest not found in repository acme/widgets'' \<and>
   pullTags env_no_image conveyor0 ''acme/widgets'' 1 [''main'', ''latest''] [] =
     (Some ''Error: Tag latest not found in repository acme/widgets'',
      [EvPullImage ''acme/widgets'' ''main'' 1 auth0,
       EvPullImage ''acme/widgets'' ''latest'' 1 auth0]) \<and>
   fst (Build env_no_image conveyor0 opts0 []) =
     Return (Some ''pull: Error: Tag latest not found in repository acme/widgets'') \<and>
   statuses (snd (Build env_no_image conveyor0 opts0 [])) = [''pending'', ''error''] \<and>
   filter (\<lambda>ev. case ev of EvRun cmd \<Rightarrow> Path cmd = ''docker'' | _ \<Rightarrow> False)
     (snd (Build env_no_image conveyor0 opts0 [])) = []"
proof (intro conjI)
  show "tagNotFound ''Error: Tag main not found in repository acme/widgets''"
    by code_simp
  show "tagNotFound ''Error: Tag latest not found in repository acme/widgets''"
    by code_simp
  show "pullTags env_no_image conveyor0 ''acme/widgets'' 1 [''main'', ''latest''] [] =
     (Some ''Error: Tag latest not found in repository acme/widgets'',
      [EvPullImage ''acme/widgets'' ''main'' 1 auth0,
       EvPullImage ''acme/widgets'' ''latest'' 1 auth0])"
    by code_simp
  show "fst (Build env_no_image conveyor0 opts0 []) =
     Return (Some ''pull: Error: Tag latest not found in repository acme/widgets'')"
    by code_simp
  show "statuses (snd (Build env_no_image conveyor0 opts0 [])) = [''pending'', ''error'']"
    by code_simp
  show "filter (\<lambda>ev. case ev of EvRun cmd \<Rightarrow> Path cmd = ''docker'' | _ \<Rightarrow> False)
     (snd (Build env_no_image conveyor0 opts0 [])) = []"
    by code_simp
qed

subsection \<open>The status reporter\<close>

lemma Index_slash_first:
  "CHR ''/'' \<notin> set ow \<Longrightarrow> Index (ow @ CHR ''/'' # nm) ''/'' = Some (length ow)"
  by (induction ow) (auto simp: HasPrefix_def)

lemma Index_slash_none: "CHR ''/'' \<notin> set s \<Longrightarrow> Index s ''/'' = None"
  by (induction s) (auto simp: HasPrefix_def)

lemma SplitN_slash_first:
  "CHR ''/'' \<notin> set ow \<Longrightarrow> SplitN (ow @ CHR ''/'' # nm) ''/'' 2 = [ow, nm]"
  by (simp add: numeral_2_eq_2 Index_slash_first)

lemma SplitN_slash_none: "CHR ''/'' \<notin> set s \<Longrightarrow> SplitN s ''/'' 2 = [s]"
  by (simp add: numeral_2_eq_2 Index_slash_none)

text \<open>
  C8.  For a repository \<open>ow/nm\<close> whose part \<open>ow\<close> holds no separator (so the separator
  shown is the first), \<open>updateStatus\<close> calls \<^verbatim>\<open>CreateStatus\<close> once, with owner \<open>ow\<close>, name
  \<open>nm\<close> (the whole remainder), the commit, the state and the context
  \<^verbatim>\<open>container/docker\<close>, and returns what the call returns.  For a repository without a
  separator it panics before any call is made.
\<close>

theorem updateStatus_splits_on_first_separator:
  "(CHR ''/'' \<notin> set ow \<longrightarrow>
      updateStatus e (ow @ ''/'' @ nm) commit status h =
        (Return (github_CreateStatus e h ow nm commit
                   \<lparr>State = status, StatusContext = ''container/docker''\<rparr>),
         h @ [EvCreateStatus ow nm commit \<lparr>State = status, StatusContext = ''container/docker''\<rparr>]))
   \<and> (CHR ''/'' \<notin> set repo \<longrightarrow> updateStatus e repo commit status h = (Panic, h))"
proof (intro conjI impI)
  assume "CHR ''/'' \<notin> set ow"
  then have parts: "SplitN (ow @ ''/'' @ nm) ''/'' 2 = [ow, nm]"
    using SplitN_slash_first[of ow nm] by simp
  show "updateStatus e (ow @ ''/'' @ nm) commit status h =
        (Return (github_CreateStatus e h ow nm commit
                   \<lparr>State = status, StatusContext = ''container/docker''\<rparr>),
         h @ [EvCreateStatus ow nm commit \<lparr>State = status, StatusContext = ''container/docker''\<rparr>])"
    unfolding updateStatus_def parts by (simp add: Let_def Context_def)
next
  assume "CHR ''/'' \<notin> set repo"
  then have parts: "SplitN repo ''/'' 2 = [repo]"
    by (rule SplitN_slash_none)
  show "updateStatus e repo commit status h = (Panic, h)"
    unfolding updateStatus_def parts by (simp add: Let_def)
qed

theorem updateStatus_splits_on_first_separator_witness:
  "updateStatus env_ok ''acme/widgets/v2'' ''abc123'' ''pending'' [] =
     (Return None,
      [EvCreateStatus ''acme'' ''widgets/v2'' ''abc123''
         \<lparr>State = ''pending'', StatusContext = ''container/docker''\<rparr>])
   \<and> updateStatus env_ok ''widgets'' ''abc123'' ''pending'' [] = (Panic, [])"
proof -
  have 1: "CHR ''/'' \<notin> set ''acme''" by simp
  have 2: "CHR ''/'' \<notin> set ''widgets''" by simp
  have 3: "github_CreateStatus env_ok [] ''acme'' ''widgets/v2'' ''abc123''
             \<lparr>State = ''pending'', StatusContext = ''container/docker''\<rparr> = None"
    by code_simp
  from updateStatus_splits_on_first_separator[of "''acme''" env_ok "''widgets/v2''" "''abc123''"
         "''pending''" "[]" "''widgets''"] 1 2 3
  show ?thesis by simp
qed

lemma split_at_first_slash:
  "CHR ''/'' \<in> set repo \<Longrightarrow>
   \<exists>ow nm. repo = ow @ CHR ''/'' # nm \<and> CHR ''/'' \<notin> set ow"
  by (metis split_list_first)

lemma updateStatus_ok:
  assumes "CHR ''/'' \<in> set repo"
  shows "\<exists>ow nm. repo = ow @ CHR ''/'' # nm \<and> CHR ''/'' \<notin> set ow \<and>
           (\<forall>e commit status h. updateStatus e repo commit status h =
             (Return (github_CreateStatus e h ow nm commit \<lparr>State = status, StatusContext = Context\<rparr>),
              h @ [EvCreateStatus ow nm commit \<lparr>State = status, StatusContext = Context\<rparr>]))"
proof -
  from split_at_first_slash[OF assms] obtain ow nm where
    r: "repo = ow @ CHR ''/'' # nm" "CHR ''/'' \<notin> set ow" by blast
  then have "\<forall>e commit status h. updateStatus e repo commit status h =
             (Return (github_CreateStatus e h ow nm commit \<lparr>State = status, StatusContext = Context\<rparr>),
              h @ [EvCreateStatus ow nm commit \<lparr>State = status, StatusContext = Context\<rparr>])"
    by (simp add: updateStatus_def Let_def SplitN_slash_first)
  with r show ?thesis by blast
qed

lemma updateStatus_panic: "CHR ''/'' \<notin> set repo \<Longrightarrow> updateStatus e repo commit status h = (Panic, h)"
  by (simp add: updateStatus_def Let_def SplitN_slash_none)

lemma updateStatus_returns:
  "updateStatus e repo commit status h = (Return r, h') \<Longrightarrow> CHR ''/'' \<in> set repo"
  using updateStatus_panic[of repo e commit status h] by auto

subsection \<open>What each stage adds to the history\<close>

lemma concat_map_append_one: "concat (map g (h @ [ev])) = concat (map g h) @ g ev"
  by simp

lemma checkout_proj:
  assumes "checkout e c dir opts h = (r, h')" and "\<And>cmd. g (EvRun cmd) = []"
  shows "concat (map g h') = concat (map g h)"
  using assms by (auto simp: checkout_def run_def Let_def split: option.splits)

lemma pull_proj:
  assumes "pull e c opts h = (r, h')" and "\<And>repo t w a. g (EvPullImage repo t w a) = []"
  shows "concat (map g h') = concat (map g h)"
proof -
  from pullTags_loop_history[of "[Branch opts, ''latest'']" e c "Repository opts"
         "OutputStream opts" None h]
  obtain n where "snd (pull e c opts h) =
      h @ pullEvents c (Repository opts) (OutputStream opts) (take n [Branch opts, ''latest''])"
    by (auto simp: pull_def pullTags_def)
  then show ?thesis using assms by (auto simp: pullEvents_def)
qed

lemma build_proj:
  assumes "build e c dir opts h = (r, h')" and "\<And>cmd. g (EvRun cmd) = []"
    and "\<And>n. g (EvInspectImage n) = []"
  shows "concat (map g h') = concat (map g h)"
  using assms by (auto simp: build_def run_def Let_def split: option.splits)

lemma tagEvents_simps:
  "tagEvents img [] = []"
  "tagEvents img (t # ts) = EvTagImage img img t True # tagEvents img ts"
  "tagEvents img (xs @ ys) = tagEvents img xs @ tagEvents img ys"
  by (simp_all add: tagEvents_def)

lemma pushEvents_simps:
  "pushEvents c img w [] = []"
  "pushEvents c img w (t # ts) = EvPushImage img t w (AuthConfiguration c) # pushEvents c img w ts"
  "pushEvents c img w (xs @ ys) = pushEvents c img w xs @ pushEvents c img w ys"
  by (simp_all add: pushEvents_def)

lemma tag_history:
  "\<exists>n\<le>length ts. snd (tag e c img ts h) = h @ tagEvents img (take n ts)"
proof (induction ts arbitrary: h)
  case Nil
  then show ?case by (simp add: tagEvents_simps)
next
  case (Cons t ts)
  let ?h' = "h @ [EvTagImage img img t True]"
  show ?case
  proof (cases "docker_TagImage e h img img t True")
    case None
    from Cons.IH[of ?h'] obtain n where
      n: "n \<le> length ts" "snd (tag e c img ts ?h') = ?h' @ tagEvents img (take n ts)"
      by blast
    have "snd (tag e c img (t # ts) h) = h @ tagEvents img (take (Suc n) (t # ts))"
      using None n(2) by (simp add: tagEvents_simps)
    with n(1) show ?thesis by (intro exI[of _ "Suc n"]) simp
  next
    case (Some x)
    then have "snd (tag e c img (t # ts) h) = h @ tagEvents img (take (Suc 0) (t # ts))"
      by (simp add: tagEvents_simps)
    then show ?thesis by (intro exI[of _ "Suc 0"]) simp
  qed
qed

lemma push_history:
  "\<exists>n\<le>length ts. snd (push e c img w ts h) = h @ pushEvents c img w (take n ts)"
proof (induction ts arbitrary: h)
  case Nil
  then show ?case by (simp add: pushEvents_simps)
next
  case (Cons t ts)
  let ?h' = "h @ [EvPushImage img t w (AuthConfiguration c)]"
  show ?case
  proof (cases "docker_PushImage e h img t w (AuthConfiguration c)")
    case None
    from Cons.IH[of ?h'] obtain n where
      n: "n \<le> length ts" "snd (push e c img w ts ?h') = ?h' @ pushEvents c img w (take n ts)"
      by blast
    have "snd (push e c img w (t # ts) h) = h @ pushEvents c img w (take (Suc n) (t # ts))"
      using None n(2) by (simp add: pushEvents_simps)
    with n(1) show ?thesis by (intro exI[of _ "Suc n"]) simp
  next
    case (Some x)
    then have "snd (push e c img w (t # ts) h) = h @ pushEvents c img w (take (Suc 0) (t # ts))"
      by (simp add: pushEvents_simps)
    then show ?thesis by (intro exI[of _ "Suc 0"]) simp
  qed
qed



lemma tag_proj:
  assumes "tag e c img ts h = (r, h')" and "\<And>n repo t f. g (EvTagImage n repo t f) = []"
  shows "concat (map g h') = concat (map g h)"
proof -
  from tag_history[of ts e c img h] obtain n where
    "snd (tag e c img ts h) = h @ tagEvents img (take n ts)" by blast
  then show ?thesis using assms by (auto simp: tagEvents_def)
qed

lemma push_proj:
  assumes "push e c img w ts h = (r, h')" and "\<And>n t w a. g (EvPushImage n t w a) = []"
  shows "concat (map g h') = concat (map g h)"
proof -
  from push_history[of ts e c img w h] obtain n where
    "snd (push e c img w ts h) = h @ pushEvents c img w (take n ts)" by blast
  then show ?thesis using assms by (auto simp: pushEvents_def)
qed



lemma checkout_keeps:
  assumes "checkout e c dir opts h = (r, h')"
  shows "statuses h' = statuses h" "tagCalls h' = tagCalls h" "pushCalls h' = pushCalls h"
  using checkout_proj[OF assms, where g = statusOf] checkout_proj[OF assms, where g = tagOf]
    checkout_proj[OF assms, where g = pushOf]
  by (simp_all add: statuses_def tagCalls_def pushCalls_def)

lemma pull_keeps:
  assumes "pull e c opts h = (r, h')"
  shows "statuses h' = statuses h" "tagCalls h' = tagCalls h" "pushCalls h' = pushCalls h"
  using pull_proj[OF assms, where g = statusOf] pull_proj[OF assms, where g = tagOf]
    pull_proj[OF assms, where g = pushOf]
  by (simp_all add: statuses_def tagCalls_def pushCalls_def)

lemma build_keeps:
  assumes "build e c dir opts h = (r, h')"
  shows "statuses h' = statuses h" "tagCalls h' = tagCalls h" "pushCalls h' = pushCalls h"
  using build_proj[OF assms, where g = statusOf] build_proj[OF assms, where g = tagOf]
    build_proj[OF assms, where g = pushOf]
  by (simp_all add: statuses_def tagCalls_def pushCalls_def)

lemma tag_keeps:
  assumes "tag e c img ts h = (r, h')"
  shows "statuses h' = statuses h" "pushCalls h' = pushCalls h"
  using tag_proj[OF assms, where g = statusOf] tag_proj[OF assms, where g = pushOf]
  by (simp_all add: statuses_def pushCalls_def)

lemma push_keeps:
  assumes "push e c img w ts h = (r, h')"
  shows "statuses h' = statuses h" "tagCalls h' = tagCalls h"
  using push_proj[OF assms, where g = statusOf] push_proj[OF assms, where g = tagOf]
  by (simp_all add: statuses_def tagCalls_def)

lemma updateStatus_keeps:
  assumes "updateStatus e repo commit status h = (Return r, h')"
  shows "statuses h' = statuses h @ [status]" "tagCalls h' = tagCalls h" "pushCalls h' = pushCalls h"
proof -
  from updateStatus_ok[OF updateStatus_returns[OF assms]] assms
  obtain ow nm where
    "h' = h @ [EvCreateStatus ow nm commit \<lparr>State = status, StatusContext = Context\<rparr>]"
    by auto
  then show "statuses h' = statuses h @ [status]" "tagCalls h' = tagCalls h"
    "pushCalls h' = pushCalls h"
    by (simp_all add: statuses_def tagCalls_def pushCalls_def)
qed

subsection \<open>The pipeline\<close>

text \<open>
  Where the body of \<open>Build\<close> is left: at the failing stage, or after the push.
\<close>

lemma Build_body_cases:
  fixes e c opts h
  defines "h1 \<equiv> h @ [EvTempDir (BuildDir c) (Commit opts)]"
  defines "repo \<equiv> Repository opts"
  defines "tags \<equiv> [Branch opts, Commit opts]"
  obtains
    (tempdir) dir x where
      "os_TempDir e h (BuildDir c) (Commit opts) = (dir, Some x)"
      "Build_body e c opts h = (False, Some (''tempdir: '' @ x), h1)"
  | (panic) dir h2 where
      "os_TempDir e h (BuildDir c) (Commit opts) = (dir, None)"
      "updateStatus e repo (Commit opts) ''pending'' h1 = (Panic, h2)"
      "Build_body e c opts h = (True, None, h2)"
  | (status) dir x h2 where
      "os_TempDir e h (BuildDir c) (Commit opts) = (dir, None)"
      "updateStatus e repo (Commit opts) ''pending'' h1 = (Return (Some x), h2)"
      "Build_body e c opts h = (False, Some (''status: '' @ x), h2)"
  | (checkout) dir h2 x h3 where
      "os_TempDir e h (BuildDir c) (Commit opts) = (dir, None)"
      "updateStatus e repo (Commit opts) ''pending'' h1 = (Return None, h2)"
      "checkout e c dir opts h2 = (Some x, h3)"
      "Build_body e c opts h = (False, Some (''checkout: '' @ x), h3)"
  | (pull) dir h2 h3 x h4 where
      "os_TempDir e h (BuildDir c) (Commit opts) = (dir, None)"
      "updateStatus e repo (Commit opts) ''pending'' h1 = (Return None, h2)"
      "checkout e c dir opts h2 = (None, h3)"
      "pull e c opts h3 = (Some x, h4)"
      "Build_body e c opts h = (False, Some (''pull: '' @ x), h4)"
  | (build) dir h2 h3 h4 i x h5 where
      "os_TempDir e h (BuildDir c) (Commit opts) = (dir, None)"
      "updateStatus e repo (Commit opts) ''pending'' h1 = (Return None, h2)"
      "checkout e c dir opts h2 = (None, h3)"
      "pull e c opts h3 = (None, h4)"
      "build e c dir opts h4 = ((i, Some x), h5)"
      "Build_body e c opts h = (False, Some (''build: '' @ x), h5)"
  | (tag) dir h2 h3 h4 i h5 x h6 where
      "os_TempDir e h (BuildDir c) (Commit opts) = (dir, None)"
      "updateStatus e repo (Commit opts) ''pending'' h1 = (Return None, h2)"
      "checkout e c dir opts h2 = (None, h3)"
      "pull e c opts h3 = (None, h4)"
      "build e c dir opts h4 = ((i, None), h5)"
      "tag e c repo tags h5 = (Some x, h6)"
      "Build_body e c opts h = (False, Some (''tag: '' @ x), h6)"
  | (push) dir h2 h3 h4 i h5 h6 x h7 where
      "os_TempDir e h (BuildDir c) (Commit opts) = (dir, None)"
      "updateStatus e repo (Commit opts) ''pending'' h1 = (Return None, h2)"
      "checkout e c dir opts h2 = (None, h3)"
      "pull e c opts h3 = (None, h4)"
      "build e c dir opts h4 = ((i, None), h5)"
      "tag e c repo tags h5 = (None, h6)"
      "push e c repo (OutputStream opts) (''latest'' # tags) h6 = (Some x, h7)"
      "Build_body e c opts h = (False, Some (''push: '' @ x), h7)"
  | (ok) dir h2 h3 h4 i h5 h6 h7 where
      "os_TempDir e h (BuildDir c) (Commit opts) = (dir, None)"
      "updateStatus e repo (Commit opts) ''pending'' h1 = (Return None, h2)"
      "checkout e c dir opts h2 = (None, h3)"
      "pull e c opts h3 = (None, h4)"
      "build e c dir opts h4 = ((i, None), h5)"
      "tag e c repo tags h5 = (None, h6)"
      "push e c repo (OutputStream opts) (''latest'' # tags) h6 = (None, h7)"
      "Build_body e c opts h = (False, None, h7)"
proof -
  obtain dir te where td: "os_TempDir e h (BuildDir c) (Commit opts) = (dir, te)"
    by (cases "os_TempDir e h (BuildDir c) (Commit opts)")
  obtain r2 h2 where us: "updateStatus e repo (Commit opts) ''pending'' h1 = (r2, h2)"
    by (cases "updateStatus e repo (Commit opts) ''pending'' h1")
  obtain r3 h3 where co: "checkout e c dir opts h2 = (r3, h3)"
    by (cases "checkout e c dir opts h2")
  obtain r4 h4 where pu: "pull e c opts h3 = (r4, h4)"
    by (cases "pull e c opts h3")
  obtain i r5 h5 where bu: "build e c dir opts h4 = ((i, r5), h5)"
    by (cases "build e c dir opts h4") auto
  obtain r6 h6 where tg: "tag e c repo tags h5 = (r6, h6)"
    by (cases "tag e c repo tags h5")
  obtain r7 h7 where ps: "push e c repo (OutputStream opts) (''latest'' # tags) h6 = (r7, h7)"
    by (cases "push e c repo (OutputStream opts) (''latest'' # tags) h6")
  note unf = Build_body_def Let_def h1_def[symmetric] repo_def[symmetric] tags_def[symmetric]
  show thesis
  proof (cases te)
    case (Some x)
    with td show thesis by (intro tempdir[of dir x]) (simp_all add: unf)
  next
    case None
    note te = this
    show thesis
    proof (cases r2)
      case Panic
      with td te us show thesis by (intro panic[of dir h2]) (simp_all add: unf)
    next
      case (Return r2')
      note r2 = this
      show thesis
      proof (cases r2')
        case (Some x)
        with td te us r2 show thesis by (intro status[of dir x h2]) (simp_all add: unf)
      next
        case None
        note r2' = this
        show thesis
        proof (cases r3)
          case (Some x)
          with td te us r2 r2' co show thesis
            by (intro checkout[of dir h2 x h3]) (simp_all add: unf)
        next
          case None
          note r3 = this
          show thesis
          proof (cases r4)
            case (Some x)
            with td te us r2 r2' co r3 pu show thesis
              by (intro pull[of dir h2 h3 x h4]) (simp_all add: unf)
          next
            case None
            note r4 = this
            show thesis
            proof (cases r5)
              case (Some x)
              with td te us r2 r2' co r3 pu r4 bu show thesis
                by (intro build[of dir h2 h3 h4 i x h5]) (simp_all add: unf)
            next
              case None
              note r5 = this
              show thesis
              proof (cases r6)
                case (Some x)
                with td te us r2 r2' co r3 pu r4 bu r5 tg show thesis
                  by (intro tag[of dir h2 h3 h4 i h5 x h6]) (simp_all add: unf)
              next
                case None
                note r6 = this
                show thesis
                proof (cases r7)
                  case (Some x)
                  with td te us r2 r2' co r3 pu r4 bu r5 tg r6 ps show thesis
                    by (intro push[of dir h2 h3 h4 i h5 h6 x h7]) (simp_all add: unf)
                next
                  case None
                  with td te us r2 r2' co r3 pu r4 bu r5 tg r6 ps show thesis
                    by (intro ok[of dir h2 h3 h4 i h5 h6 h7]) (simp_all add: unf)
                qed
              qed
            qed
          qed
        qed
      qed
    qed
  qed
qed

text \<open>
  For a repository with a separator the deferred report does not panic: \<open>Build\<close> returns
  the \<^verbatim>\<open>err\<close> of its body and adds one status, chosen by that \<^verbatim>\<open>err\<close>.
\<close>

lemma Build_wf:
  assumes wf: "CHR ''/'' \<in> set (Repository opts)"
    and bb: "Build_body e c opts h = (p, err, hb)"
  shows "fst (Build e c opts h) = (if p then Panic else Return err)"
    and "statuses (snd (Build e c opts h)) =
           statuses hb @ [if err \<noteq> None then ''error'' else ''success'']"
    and "tagCalls (snd (Build e c opts h)) = tagCalls hb"
    and "pushCalls (snd (Build e c opts h)) = pushCalls hb"
proof -
  from updateStatus_ok[OF wf] obtain ow nm where
    us: "\<And>e commit status h. updateStatus e (Repository opts) commit status h =
             (Return (github_CreateStatus e h ow nm commit \<lparr>State = status, StatusContext = Context\<rparr>),
              h @ [EvCreateStatus ow nm commit \<lparr>State = status, StatusContext = Context\<rparr>])"
    by blast
  show "fst (Build e c opts h) = (if p then Panic else Return err)"
    by (simp add: Build_def bb us)
  show "statuses (snd (Build e c opts h)) =
           statuses hb @ [if err \<noteq> None then ''error'' else ''success'']"
    by (simp add: Build_def bb us statuses_def)
  show "tagCalls (snd (Build e c opts h)) = tagCalls hb"
    by (simp add: Build_def bb us tagCalls_def)
  show "pushCalls (snd (Build e c opts h)) = pushCalls hb"
    by (simp add: Build_def bb us pushCalls_def)
qed

lemma tempdir_keeps:
  "statuses (h @ [EvTempDir d p]) = statuses h"
  "tagCalls (h @ [EvTempDir d p]) = tagCalls h"
  "pushCalls (h @ [EvTempDir d p]) = pushCalls h"
  by (simp_all add: statuses_def tagCalls_def pushCalls_def)

text \<open>
  C2, as the code has it.  For a repository identifier with a separator, \<open>Build\<close> returns
  (it does not panic) and reports exactly one terminal status, as its last report:
  \<^verbatim>\<open>success\<close> when it returns \<^verbatim>\<open>nil\<close> and \<^verbatim>\<open>error\<close> otherwise.  When the working
  directory was allocated, exactly one \<^verbatim>\<open>pending\<close> status is reported before it; when
  the allocation fails, no \<^verbatim>\<open>pending\<close> status is reported and the terminal status is
  \<^verbatim>\<open>error\<close>.
\<close>

theorem Build_reports_one_terminal_status:
  assumes wf: "CHR ''/'' \<in> set (Repository opts)"
  shows "(\<exists>r. fst (Build e c opts h) = Return r) \<and>
         statuses (snd (Build e c opts h)) =
           statuses h @
           (case snd (os_TempDir e h (BuildDir c) (Commit opts)) of
              Some x \<Rightarrow> [''error'']
            | None \<Rightarrow> [''pending'',
                        if fst (Build e c opts h) = Return None then ''success'' else ''error''])"
proof (cases rule: Build_body_cases[of e h c opts])
  case (tempdir dir x)
  from Build_wf[OF wf tempdir(2)] tempdir(1) show ?thesis
    by (simp add: tempdir_keeps)
next
  case (panic dir h2)
  from updateStatus_returns[of e "Repository opts" "Commit opts" "''pending''"] 
    updateStatus_ok[OF wf] panic(2)
  show ?thesis by auto
next
  case (status dir x h2)
  from Build_wf[OF wf status(3)] status(1) updateStatus_keeps[OF status(2)] show ?thesis
    by (simp add: tempdir_keeps)
next
  case (checkout dir h2 x h3)
  from Build_wf[OF wf checkout(4)] checkout(1) updateStatus_keeps[OF checkout(2)]
    checkout_keeps[OF checkout(3)]
  show ?thesis by (simp add: tempdir_keeps)
next
  case (pull dir h2 h3 x h4)
  from Build_wf[OF wf pull(5)] pull(1) updateStatus_keeps[OF pull(2)]
    checkout_keeps[OF pull(3)] pull_keeps[OF pull(4)]
  show ?thesis by (simp add: tempdir_keeps)
next
  case (build dir h2 h3 h4 i x h5)
  from Build_wf[OF wf build(6)] build(1) updateStatus_keeps[OF build(2)]
    checkout_keeps[OF build(3)] pull_keeps[OF build(4)] build_keeps[OF build(5)]
  show ?thesis by (simp add: tempdir_keeps)
next
  case (tag dir h2 h3 h4 i h5 x h6)
  from Build_wf[OF wf tag(7)] tag(1) updateStatus_keeps[OF tag(2)]
    checkout_keeps[OF tag(3)] pull_keeps[OF tag(4)] build_keeps[OF tag(5)] tag_keeps[OF tag(6)]
  show ?thesis by (simp add: tempdir_keeps)
next
  case (push dir h2 h3 h4 i h5 h6 x h7)
  from Build_wf[OF wf push(8)] push(1) updateStatus_keeps[OF push(2)]
    checkout_keeps[OF push(3)] pull_keeps[OF push(4)] build_keeps[OF push(5)]
    tag_keeps[OF push(6)] push_keeps[OF push(7)]
  show ?thesis by (simp add: tempdir_keeps)
next
  case (ok dir h2 h3 h4 i h5 h6 h7)
  from Build_wf[OF wf ok(8)] ok(1) updateStatus_keeps[OF ok(2)]
    checkout_keeps[OF ok(3)] pull_keeps[OF ok(4)] build_keeps[OF ok(5)]
    tag_keeps[OF ok(6)] push_keeps[OF ok(7)]
  show ?thesis by (simp add: tempdir_keeps)
qed

theorem Build_reports_one_terminal_status_witness:
  "CHR ''/'' \<in> set (Repository opts0) \<and>
   fst (Build env_ok conveyor0 opts0 []) = Return None \<and>
   statuses (snd (Build env_ok conveyor0 opts0 [])) = [''pending'', ''success''] \<and>
   fst (Build env_checkout_fails conveyor0 opts0 []) = Return (Some ''checkout: exit status 128'') \<and>
   statuses (snd (Build env_checkout_fails conveyor0 opts0 [])) = [''pending'', ''error'']"
proof -
  have wf: "CHR ''/'' \<in> set (Repository opts0)" by code_simp
  have r1: "fst (Build env_ok conveyor0 opts0 []) = Return None" by code_simp
  have t1: "snd (os_TempDir env_ok [] (BuildDir conveyor0) (Commit opts0)) = None" by code_simp
  have r2: "fst (Build env_checkout_fails conveyor0 opts0 []) =
              Return (Some ''checkout: exit status 128'')" by code_simp
  have t2: "snd (os_TempDir env_checkout_fails [] (BuildDir conveyor0) (Commit opts0)) = None"
    by code_simp
  from Build_reports_one_terminal_status[OF wf, of env_ok conveyor0 "[]"] r1 t1
  have s1: "statuses (snd (Build env_ok conveyor0 opts0 [])) = [''pending'', ''success'']"
    by (simp add: statuses_def)
  from Build_reports_one_terminal_status[OF wf, of env_checkout_fails conveyor0 "[]"] r2 t2
  have s2: "statuses (snd (Build env_checkout_fails conveyor0 opts0 [])) = [''pending'', ''error'']"
    by (simp add: statuses_def)
  from wf r1 s1 r2 s2 show ?thesis by blast
qed

text \<open>
  C2 as the claim states it fails where the working directory cannot be allocated: the
  build root is not writable, \<open>Build\<close> returns the wrapped error, and the only status
  reported is \<^verbatim>\<open>error\<close>; no \<^verbatim>\<open>pending\<close> status precedes it.
\<close>

theorem Build_tempdir_failure_reports_no_pending:
  "fst (Build env_no_tempdir conveyor0 opts0 []) =
     Return (Some ''tempdir: mkdir /builds/abc123: permission denied'') \<and>
   statuses (snd (Build env_no_tempdir conveyor0 opts0 [])) = [''error''] \<and>
   ''pending'' \<notin> set (statuses (snd (Build env_no_tempdir conveyor0 opts0 [])))"
proof (intro conjI)
  show "fst (Build env_no_tempdir conveyor0 opts0 []) =
     Return (Some ''tempdir: mkdir /builds/abc123: permission denied'')"
    by code_simp
  show "statuses (snd (Build env_no_tempdir conveyor0 opts0 [])) = [''error'']"
    by code_simp
  then show "''pending'' \<notin> set (statuses (snd (Build env_no_tempdir conveyor0 opts0 [])))"
    by simp
qed

text \<open>
  C6.  When the stages before it succeed and the build stage fails, \<open>Build\<close> reports
  \<^verbatim>\<open>pending\<close> and then \<^verbatim>\<open>error\<close> and nothing else, and makes no tag call and no push
  call.
\<close>

theorem Build_build_failure_reports_error:
  assumes "os_TempDir e h (BuildDir c) (Commit opts) = (dir, None)"
    and "updateStatus e (Repository opts) (Commit opts) ''pending''
           (h @ [EvTempDir (BuildDir c) (Commit opts)]) = (Return None, h2)"
    and "checkout e c dir opts h2 = (None, h3)"
    and "pull e c opts h3 = (None, h4)"
    and "build e c dir opts h4 = ((i, Some x), h5)"
  shows "statuses (snd (Build e c opts h)) = statuses h @ [''pending'', ''error''] \<and>
         tagCalls (snd (Build e c opts h)) = tagCalls h \<and>
         pushCalls (snd (Build e c opts h)) = pushCalls h"
proof -
  have wf: "CHR ''/'' \<in> set (Repository opts)"
    using assms(2) by (rule updateStatus_returns)
  have bb: "Build_body e c opts h = (False, Some (''build: '' @ x), h5)"
    using assms by (simp add: Build_body_def Let_def)
  from Build_wf[OF wf bb] updateStatus_keeps[OF assms(2)] checkout_keeps[OF assms(3)]
    pull_keeps[OF assms(4)] build_keeps[OF assms(5)]
  show ?thesis by (simp add: tempdir_keeps)
qed

theorem Build_build_failure_reports_error_witness:
  "fst (build env_build_fails conveyor0 ''/builds/abc1230001'' opts0
          (snd (pull env_build_fails conveyor0 opts0
             (snd (checkout env_build_fails conveyor0 ''/builds/abc1230001'' opts0
                (snd (updateStatus env_build_fails (Repository opts0) (Commit opts0) ''pending''
                   [EvTempDir (BuildDir conveyor0) (Commit opts0)])))))))
     = (None, Some ''exit status 1'') \<and>
   statuses (snd (Build env_build_fails conveyor0 opts0 [])) = [''pending'', ''error''] \<and>
   tagCalls (snd (Build env_build_fails conveyor0 opts0 [])) = [] \<and>
   pushCalls (snd (Build env_build_fails conveyor0 opts0 [])) = []"
proof -
  let ?e = env_build_fails
  let ?dir = "''/builds/abc1230001''"
  let ?h2 = "snd (updateStatus ?e (Repository opts0) (Commit opts0) ''pending''
                   ([] @ [EvTempDir (BuildDir conveyor0) (Commit opts0)]))"
  let ?h3 = "snd (checkout ?e conveyor0 ?dir opts0 ?h2)"
  let ?h4 = "snd (pull ?e conveyor0 opts0 ?h3)"
  let ?h5 = "snd (build ?e conveyor0 ?dir opts0 ?h4)"
  have td: "os_TempDir ?e [] (BuildDir conveyor0) (Commit opts0) = (?dir, None)"
    by code_simp
  have us: "updateStatus ?e (Repository opts0) (Commit opts0) ''pending''
              ([] @ [EvTempDir (BuildDir conveyor0) (Commit opts0)]) = (Return None, ?h2)"
    by code_simp
  have co: "checkout ?e conveyor0 ?dir opts0 ?h2 = (None, ?h3)"
    by code_simp
  have pu: "pull ?e conveyor0 opts0 ?h3 = (None, ?h4)"
    by code_simp
  have bu: "build ?e conveyor0 ?dir opts0 ?h4 = ((None, Some ''exit status 1''), ?h5)"
    by code_simp
  have bf: "fst (build ?e conveyor0 ?dir opts0
          (snd (pull ?e conveyor0 opts0
             (snd (checkout ?e conveyor0 ?dir opts0
                (snd (updateStatus ?e (Repository opts0) (Commit opts0) ''pending''
                   [EvTempDir (BuildDir conveyor0) (Commit opts0)])))))))
     = (None, Some ''exit status 1'')"
    by code_simp
  from Build_build_failure_reports_error[OF td us co pu bu]
  have "statuses (snd (Build ?e conveyor0 opts0 [])) = [''pending'', ''error''] \<and>
        tagCalls (snd (Build ?e conveyor0 opts0 [])) = [] \<and>
        pushCalls (snd (Build ?e conveyor0 opts0 [])) = []"
    by (simp add: statuses_def tagCalls_def pushCalls_def)
  with bf show ?thesis by blast
qed

text \<open>
  C7.  After the working directory is allocated and \<^verbatim>\<open>pending\<close> is reported, a failure of
  the checkout, pull, build, tag or push stage makes \<open>Build\<close> return the stage's error
  message behind the stage's name (\<^verbatim>\<open>checkout\<close>, \<^verbatim>\<open>pull\<close>, \<^verbatim>\<open>build\<close>, \<^verbatim>\<open>tag\<close>,
  \<^verbatim>\<open>push\<close>); the stage fails after the stages before it have succeeded.
\<close>

theorem Build_wraps_stage_failure:
  assumes td: "os_TempDir e h (BuildDir c) (Commit opts) = (dir, None)"
    and us: "updateStatus e (Repository opts) (Commit opts) ''pending''
               (h @ [EvTempDir (BuildDir c) (Commit opts)]) = (Return None, h2)"
  shows
    "(checkout e c dir opts h2 = (Some x, h3) \<longrightarrow>
        fst (Build e c opts h) = Return (Some (''checkout: '' @ x))) \<and>
     (checkout e c dir opts h2 = (None, h3) \<longrightarrow> pull e c opts h3 = (Some x, h4) \<longrightarrow>
        fst (Build e c opts h) = Return (Some (''pull: '' @ x))) \<and>
     (checkout e c dir opts h2 = (None, h3) \<longrightarrow> pull e c opts h3 = (None, h4) \<longrightarrow>
      build e c dir opts h4 = ((i, Some x), h5) \<longrightarrow>
        fst (Build e c opts h) = Return (Some (''build: '' @ x))) \<and>
     (checkout e c dir opts h2 = (None, h3) \<longrightarrow> pull e c opts h3 = (None, h4) \<longrightarrow>
      build e c dir opts h4 = ((i, None), h5) \<longrightarrow>
      tag e c (Repository opts) [Branch opts, Commit opts] h5 = (Some x, h6) \<longrightarrow>
        fst (Build e c opts h) = Return (Some (''tag: '' @ x))) \<and>
     (checkout e c dir opts h2 = (None, h3) \<longrightarrow> pull e c opts h3 = (None, h4) \<longrightarrow>
      build e c dir opts h4 = ((i, None), h5) \<longrightarrow>
      tag e c (Repository opts) [Branch opts, Commit opts] h5 = (None, h6) \<longrightarrow>
      push e c (Repository opts) (OutputStream opts) [''latest'', Branch opts, Commit opts] h6
        = (Some x, h7) \<longrightarrow>
        fst (Build e c opts h) = Return (Some (''push: '' @ x)))"
proof -
  have wf: "CHR ''/'' \<in> set (Repository opts)"
    using us by (rule updateStatus_returns)
  have r: "fst (Build e c opts h) = Return err" if "Build_body e c opts h = (False, err, hb)"
    for err hb
    using Build_wf(1)[OF wf that] by simp
  show ?thesis
  proof (intro conjI impI)
    assume "checkout e c dir opts h2 = (Some x, h3)"
    then have "Build_body e c opts h = (False, Some (''checkout: '' @ x), h3)"
      using td us by (simp add: Build_body_def Let_def)
    then show "fst (Build e c opts h) = Return (Some (''checkout: '' @ x))" by (rule r)
  next
    assume "checkout e c dir opts h2 = (None, h3)" "pull e c opts h3 = (Some x, h4)"
    then have "Build_body e c opts h = (False, Some (''pull: '' @ x), h4)"
      using td us by (simp add: Build_body_def Let_def)
    then show "fst (Build e c opts h) = Return (Some (''pull: '' @ x))" by (rule r)
  next
    assume "checkout e c dir opts h2 = (None, h3)" "pull e c opts h3 = (None, h4)"
      "build e c dir opts h4 = ((i, Some x), h5)"
    then have "Build_body e c opts h = (False, Some (''build: '' @ x), h5)"
      using td us by (simp add: Build_body_def Let_def)
    then show "fst (Build e c opts h) = Return (Some (''build: '' @ x))" by (rule r)
  next
    assume "checkout e c dir opts h2 = (None, h3)" "pull e c opts h3 = (None, h4)"
      "build e c dir opts h4 = ((i, None), h5)"
      "tag e c (Repository opts) [Branch opts, Commit opts] h5 = (Some x, h6)"
    then have "Build_body e c opts h = (False, Some (''tag: '' @ x), h6)"
      using td us by (simp add: Build_body_def Let_def)
    then show "fst (Build e c opts h) = Return (Some (''tag: '' @ x))" by (rule r)
  next
    assume "checkout e c dir opts h2 = (None, h3)" "pull e c opts h3 = (None, h4)"
      "build e c dir opts h4 = ((i, None), h5)"
      "tag e c (Repository opts) [Branch opts, Commit opts] h5 = (None, h6)"
      "push e c (Repository opts) (OutputStream opts) [''latest'', Branch opts, Commit opts] h6
        = (Some x, h7)"
    then have "Build_body e c opts h = (False, Some (''push: '' @ x), h7)"
      using td us by (simp add: Build_body_def Let_def)
    then show "fst (Build e c opts h) = Return (Some (''push: '' @ x))" by (rule r)
  qed
qed

theorem Build_wraps_stage_failure_witness:
  "fst (Build env_checkout_fails conveyor0 opts0 []) = Return (Some ''checkout: exit status 128'') \<and>
   fst (Build env_unauthorized conveyor0 opts0 []) =
     Return (Some ''pull: unauthorized: authentication required'') \<and>
   fst (Build env_build_fails conveyor0 opts0 []) = Return (Some ''build: exit status 1'') \<and>
   fst (Build env_tag_fails conveyor0 opts0 []) = Return (Some ''tag: no such image'') \<and>
   fst (Build env_push_fails conveyor0 opts0 []) = Return (Some ''push: connection reset'')"
proof -
  let ?dir = "''/builds/abc1230001''"
  let ?h1 = "[] @ [EvTempDir (BuildDir conveyor0) (Commit opts0)]"
  have 1: "fst (Build env_checkout_fails conveyor0 opts0 []) =
             Return (Some ''checkout: exit status 128'')"
  proof -
    let ?e = env_checkout_fails
    let ?h2 = "snd (updateStatus ?e (Repository opts0) (Commit opts0) ''pending'' ?h1)"
    let ?h3 = "snd (checkout ?e conveyor0 ?dir opts0 ?h2)"
    have td: "os_TempDir ?e [] (BuildDir conveyor0) (Commit opts0) = (?dir, None)"
      by code_simp
    have us: "updateStatus ?e (Repository opts0) (Commit opts0) ''pending'' ?h1 = (Return None, ?h2)"
      by code_simp
    have co: "checkout ?e conveyor0 ?dir opts0 ?h2 = (Some ''exit status 128'', ?h3)"
      by code_simp
    from Build_wraps_stage_failure[OF td us, THEN conjunct1, rule_format, OF co]
    show ?thesis by simp
  qed
  have 2: "fst (Build env_unauthorized conveyor0 opts0 []) =
             Return (Some ''pull: unauthorized: authentication required'')"
  proof -
    let ?e = env_unauthorized
    let ?h2 = "snd (updateStatus ?e (Repository opts0) (Commit opts0) ''pending'' ?h1)"
    let ?h3 = "snd (checkout ?e conveyor0 ?dir opts0 ?h2)"
    let ?h4 = "snd (pull ?e conveyor0 opts0 ?h3)"
    have td: "os_TempDir ?e [] (BuildDir conveyor0) (Commit opts0) = (?dir, None)"
      by code_simp
    have us: "updateStatus ?e (Repository opts0) (Commit opts0) ''pending'' ?h1 = (Return None, ?h2)"
      by code_simp
    have co: "checkout ?e conveyor0 ?dir opts0 ?h2 = (None, ?h3)"
      by code_simp
    have pu: "pull ?e conveyor0 opts0 ?h3 = (Some ''unauthorized: authentication required'', ?h4)"
      by code_simp
    from Build_wraps_stage_failure[OF td us, THEN conjunct2, THEN conjunct1, rule_format, OF co pu]
    show ?thesis by simp
  qed
  have 3: "fst (Build env_build_fails conveyor0 opts0 []) = Return (Some ''build: exit status 1'')"
  proof -
    let ?e = env_build_fails
    let ?h2 = "snd (updateStatus ?e (Repository opts0) (Commit opts0) ''pending'' ?h1)"
    let ?h3 = "snd (checkout ?e conveyor0 ?dir opts0 ?h2)"
    let ?h4 = "snd (pull ?e conveyor0 opts0 ?h3)"
    let ?h5 = "snd (build ?e conveyor0 ?dir opts0 ?h4)"
    have td: "os_TempDir ?e [] (BuildDir conveyor0) (Commit opts0) = (?dir, None)"
      by code_simp
    have us: "updateStatus ?e (Repository opts0) (Commit opts0) ''pending'' ?h1 = (Return None, ?h2)"
      by code_simp
    have co: "checkout ?e conveyor0 ?dir opts0 ?h2 = (None, ?h3)"
      by code_simp
    have pu: "pull ?e conveyor0 opts0 ?h3 = (None, ?h4)"
      by code_simp
    have bu: "build ?e conveyor0 ?dir opts0 ?h4 = ((None, Some ''exit status 1''), ?h5)"
      by code_simp
    from Build_wraps_stage_failure[OF td us, THEN conjunct2, THEN conjunct2, THEN conjunct1,
        rule_format, OF co pu bu]
    show ?thesis by simp
  qed
  have 4: "fst (Build env_tag_fails conveyor0 opts0 []) = Return (Some ''tag: no such image'')"
  proof -
    let ?e = env_tag_fails
    let ?h2 = "snd (updateStatus ?e (Repository opts0) (Commit opts0) ''pending'' ?h1)"
    let ?h3 = "snd (checkout ?e conveyor0 ?dir opts0 ?h2)"
    let ?h4 = "snd (pull ?e conveyor0 opts0 ?h3)"
    let ?h5 = "snd (build ?e conveyor0 ?dir opts0 ?h4)"
    let ?h6 = "snd (tag ?e conveyor0 (Repository opts0) [Branch opts0, Commit opts0] ?h5)"
    have td: "os_TempDir ?e [] (BuildDir conveyor0) (Commit opts0) = (?dir, None)"
      by code_simp
    have us: "updateStatus ?e (Repository opts0) (Commit opts0) ''pending'' ?h1 = (Return None, ?h2)"
      by code_simp
    have co: "checkout ?e conveyor0 ?dir opts0 ?h2 = (None, ?h3)"
      by code_simp
    have pu: "pull ?e conveyor0 opts0 ?h3 = (None, ?h4)"
      by code_simp
    have bu: "build ?e conveyor0 ?dir opts0 ?h4 = ((Some ''sha256:0'', None), ?h5)"
      by code_simp
    have tg: "tag ?e conveyor0 (Repository opts0) [Branch opts0, Commit opts0] ?h5
                = (Some ''no such image'', ?h6)"
      by code_simp
    from Build_wraps_stage_failure[OF td us, THEN conjunct2, THEN conjunct2, THEN conjunct2,
        THEN conjunct1, rule_format, OF co pu bu tg]
    show ?thesis by simp
  qed
  have 5: "fst (Build env_push_fails conveyor0 opts0 []) = Return (Some ''push: connection reset'')"
  proof -
    let ?e = env_push_fails
    let ?h2 = "snd (updateStatus ?e (Repository opts0) (Commit opts0) ''pending'' ?h1)"
    let ?h3 = "snd (checkout ?e conveyor0 ?dir opts0 ?h2)"
    let ?h4 = "snd (pull ?e conveyor0 opts0 ?h3)"
    let ?h5 = "snd (build ?e conveyor0 ?dir opts0 ?h4)"
    let ?h6 = "snd (tag ?e conveyor0 (Repository opts0) [Branch opts0, Commit opts0] ?h5)"
    let ?h7 = "snd (push ?e conveyor0 (Repository opts0) (OutputStream opts0)
                      [''latest'', Branch opts0, Commit opts0] ?h6)"
    have td: "os_TempDir ?e [] (BuildDir conveyor0) (Commit opts0) = (?dir, None)"
      by code_simp
    have us: "updateStatus ?e (Repository opts0) (Commit opts0) ''pending'' ?h1 = (Return None, ?h2)"
      by code_simp
    have co: "checkout ?e conveyor0 ?dir opts0 ?h2 = (None, ?h3)"
      by code_simp
    have pu: "pull ?e conveyor0 opts0 ?h3 = (None, ?h4)"
      by code_simp
    have bu: "build ?e conveyor0 ?dir opts0 ?h4 = ((Some ''sha256:0'', None), ?h5)"
      by code_simp
    have tg: "tag ?e conveyor0 (Repository opts0) [Branch opts0, Commit opts0] ?h5 = (None, ?h6)"
      by code_simp
    have ps: "push ?e conveyor0 (Repository opts0) (OutputStream opts0)
                [''latest'', Branch opts0, Commit opts0] ?h6 = (Some ''connection reset'', ?h7)"
      by code_simp
    from Build_wraps_stage_failure[OF td us, THEN conjunct2, THEN conjunct2, THEN conjunct2,
        THEN conjunct2, rule_format, OF co pu bu tg ps]
    show ?thesis by simp
  qed
  from 1 2 3 4 5 show ?thesis by blast
qed

subsection \<open>The stages do not consult GitHub\<close>

lemma pullTags_loop_ignores_github:
  "pullTags_loop (e\<lparr>github_CreateStatus := f\<rparr>) c repo w ts err h = pullTags_loop e c repo w ts err h"
  by (induction ts arbitrary: err h) (simp_all add: pullTag_def split: option.splits)

lemma tag_ignores_github: "tag (e\<lparr>github_CreateStatus := f\<rparr>) c img ts h = tag e c img ts h"
  by (induction ts arbitrary: h) (simp_all split: option.splits)

lemma push_ignores_github:
  "push (e\<lparr>github_CreateStatus := f\<rparr>) c img w ts h = push e c img w ts h"
  by (induction ts arbitrary: h) (simp_all split: option.splits)

lemma stages_ignore_github:
  "checkout (e\<lparr>github_CreateStatus := f\<rparr>) c dir opts h = checkout e c dir opts h"
  "pull (e\<lparr>github_CreateStatus := f\<rparr>) c opts h = pull e c opts h"
  "build (e\<lparr>github_CreateStatus := f\<rparr>) c dir opts h = build e c dir opts h"
proof -
  show "checkout (e\<lparr>github_CreateStatus := f\<rparr>) c dir opts h = checkout e c dir opts h"
    by (simp add: checkout_def run_def Let_def split: option.splits)
  show "pull (e\<lparr>github_CreateStatus := f\<rparr>) c opts h = pull e c opts h"
    by (simp only: pull_def pullTags_def pullTags_loop_ignores_github)
  show "build (e\<lparr>github_CreateStatus := f\<rparr>) c dir opts h = build e c dir opts h"
    by (simp add: build_def run_def Let_def split: option.splits)
qed

lemma Build_body_ignores_later_reports:
  assumes "\<forall>h' ow r ref.
             f h' ow r ref \<lparr>State = ''pending'', StatusContext = Context\<rparr> =
             github_CreateStatus e h' ow r ref \<lparr>State = ''pending'', StatusContext = Context\<rparr>"
  shows "Build_body (e\<lparr>github_CreateStatus := f\<rparr>) c opts h = Build_body e c opts h"
proof -
  have "updateStatus (e\<lparr>github_CreateStatus := f\<rparr>) repo commit ''pending'' h' =
        updateStatus e repo commit ''pending'' h'" for repo commit h'
    using assms by (simp add: updateStatus_def Let_def)
  then show ?thesis
    by (simp add: Build_body_def stages_ignore_github tag_ignores_github push_ignores_github
        cong: prod.case_cong option.case_cong result.case_cong)
qed

text \<open>
  C10.  What \<open>Build\<close> returns does not depend on how GitHub answers a report other than
  \<^verbatim>\<open>pending\<close>: replacing those answers leaves the result unchanged.  When the working
  directory is allocated, \<^verbatim>\<open>pending\<close> is reported and all five stages succeed, \<open>Build\<close>
  returns \<^verbatim>\<open>nil\<close>, whatever the terminal report returns.
\<close>

theorem Build_discards_terminal_report_error:
  "((\<forall>h' ow r ref.
       f h' ow r ref \<lparr>State = ''pending'', StatusContext = Context\<rparr> =
       github_CreateStatus e h' ow r ref \<lparr>State = ''pending'', StatusContext = Context\<rparr>)
     \<longrightarrow> fst (Build (e\<lparr>github_CreateStatus := f\<rparr>) c opts h) = fst (Build e c opts h)) \<and>
   (os_TempDir e h (BuildDir c) (Commit opts) = (dir, None) \<longrightarrow>
    updateStatus e (Repository opts) (Commit opts) ''pending''
      (h @ [EvTempDir (BuildDir c) (Commit opts)]) = (Return None, h2) \<longrightarrow>
    checkout e c dir opts h2 = (None, h3) \<longrightarrow>
    pull e c opts h3 = (None, h4) \<longrightarrow>
    build e c dir opts h4 = ((i, None), h5) \<longrightarrow>
    tag e c (Repository opts) [Branch opts, Commit opts] h5 = (None, h6) \<longrightarrow>
    push e c (Repository opts) (OutputStream opts) [''latest'', Branch opts, Commit opts] h6
      = (None, h7) \<longrightarrow>
    fst (Build e c opts h) = Return None)"
proof (intro conjI impI)
  assume agree: "\<forall>h' ow r ref.
       f h' ow r ref \<lparr>State = ''pending'', StatusContext = Context\<rparr> =
       github_CreateStatus e h' ow r ref \<lparr>State = ''pending'', StatusContext = Context\<rparr>"
  show "fst (Build (e\<lparr>github_CreateStatus := f\<rparr>) c opts h) = fst (Build e c opts h)"
    by (simp add: Build_def Build_body_ignores_later_reports[where f = f and e = e, OF agree] updateStatus_def Let_def
        split: prod.splits)
next
  assume td: "os_TempDir e h (BuildDir c) (Commit opts) = (dir, None)"
    and us: "updateStatus e (Repository opts) (Commit opts) ''pending''
      (h @ [EvTempDir (BuildDir c) (Commit opts)]) = (Return None, h2)"
    and rest: "checkout e c dir opts h2 = (None, h3)" "pull e c opts h3 = (None, h4)"
      "build e c dir opts h4 = ((i, None), h5)"
      "tag e c (Repository opts) [Branch opts, Commit opts] h5 = (None, h6)"
      "push e c (Repository opts) (OutputStream opts) [''latest'', Branch opts, Commit opts] h6
         = (None, h7)"
  have wf: "CHR ''/'' \<in> set (Repository opts)"
    using us by (rule updateStatus_returns)
  have "Build_body e c opts h = (False, None, h7)"
    using td us rest by (simp add: Build_body_def Let_def)
  from Build_wf(1)[OF wf this] show "fst (Build e c opts h) = Return None" by simp
qed

theorem Build_discards_terminal_report_error_witness:
  "github_CreateStatus env_status_down (butlast (snd (Build env_status_down conveyor0 opts0 [])))
     ''acme'' ''widgets'' ''abc123'' \<lparr>State = ''success'', StatusContext = ''container/docker''\<rparr>
     = Some ''502 Bad Gateway'' \<and>
   last (snd (Build env_status_down conveyor0 opts0 [])) =
     EvCreateStatus ''acme'' ''widgets'' ''abc123''
       \<lparr>State = ''success'', StatusContext = ''container/docker''\<rparr> \<and>
   fst (Build env_status_down conveyor0 opts0 []) = fst (Build env_ok conveyor0 opts0 []) \<and>
   fst (Build env_status_down conveyor0 opts0 []) = Return None"
proof -
  let ?e = env_status_down
  let ?f = "\<lambda>(h::history) (ow::string) (r::string) (ref::string) st.
              if State st = ''pending'' then None else Some ''502 Bad Gateway''"
  let ?dir = "''/builds/abc1230001''"
  let ?h1 = "[] @ [EvTempDir (BuildDir conveyor0) (Commit opts0)]"
  let ?h2 = "snd (updateStatus ?e (Repository opts0) (Commit opts0) ''pending'' ?h1)"
  let ?h3 = "snd (checkout ?e conveyor0 ?dir opts0 ?h2)"
  let ?h4 = "snd (pull ?e conveyor0 opts0 ?h3)"
  let ?h5 = "snd (build ?e conveyor0 ?dir opts0 ?h4)"
  let ?h6 = "snd (tag ?e conveyor0 (Repository opts0) [Branch opts0, Commit opts0] ?h5)"
  let ?h7 = "snd (push ?e conveyor0 (Repository opts0) (OutputStream opts0)
                    [''latest'', Branch opts0, Commit opts0] ?h6)"
  have a: "github_CreateStatus ?e (butlast (snd (Build ?e conveyor0 opts0 [])))
     ''acme'' ''widgets'' ''abc123'' \<lparr>State = ''success'', StatusContext = ''container/docker''\<rparr>
     = Some ''502 Bad Gateway''"
    by code_simp
  have l: "last (snd (Build ?e conveyor0 opts0 [])) =
     EvCreateStatus ''acme'' ''widgets'' ''abc123''
       \<lparr>State = ''success'', StatusContext = ''container/docker''\<rparr>"
    by code_simp
  have agree: "\<forall>h' ow r ref.
       ?f h' ow r ref \<lparr>State = ''pending'', StatusContext = Context\<rparr> =
       github_CreateStatus env_ok h' ow r ref \<lparr>State = ''pending'', StatusContext = Context\<rparr>"
    by (simp add: env_ok_def nullGitHubClient_CreateStatus_def)
  have td: "os_TempDir ?e [] (BuildDir conveyor0) (Commit opts0) = (?dir, None)"
    by code_simp
  have us: "updateStatus ?e (Repository opts0) (Commit opts0) ''pending'' ?h1 = (Return None, ?h2)"
    by code_simp
  have co: "checkout ?e conveyor0 ?dir opts0 ?h2 = (None, ?h3)"
    by code_simp
  have pu: "pull ?e conveyor0 opts0 ?h3 = (None, ?h4)"
    by code_simp
  have bu: "build ?e conveyor0 ?dir opts0 ?h4 = ((Some ''sha256:0'', None), ?h5)"
    by code_simp
  have tg: "tag ?e conveyor0 (Repository opts0) [Branch opts0, Commit opts0] ?h5 = (None, ?h6)"
    by code_simp
  have ps: "push ?e conveyor0 (Repository opts0) (OutputStream opts0)
              [''latest'', Branch opts0, Commit opts0] ?h6 = (None, ?h7)"
    by code_simp
  note T = Build_discards_terminal_report_error[of ?f env_ok conveyor0 opts0 "[]"]
  from T[THEN conjunct1, THEN mp, OF agree]
  have same: "fst (Build ?e conveyor0 opts0 []) = fst (Build env_ok conveyor0 opts0 [])"
    by (simp add: env_status_down_def)
  from Build_discards_terminal_report_error[where e = ?e and c = conveyor0 and opts = opts0
      and h = "[]", THEN conjunct2, rule_format, OF td us co pu bu tg ps]
  have nil: "fst (Build ?e conveyor0 opts0 []) = Return None" by simp
  from a l same nil show ?thesis by blast
qed

subsection \<open>Tagging and pushing\<close>









subsection \<open>The log files\<close>

lemma splitSlash_not_Nil: "splitSlash s \<noteq> []"
  by (induction s) (auto split: list.splits)

lemma joinSlash_Cons: "xs \<noteq> [] \<Longrightarrow> joinSlash (x # xs) = x @ ''/'' @ joinSlash xs"
  by (cases xs) simp_all

lemma joinSlash_splitSlash: "joinSlash (splitSlash s) = s"
proof (induction s)
  case Nil
  then show ?case by simp
next
  case (Cons ch s)
  show ?case
  proof (cases "ch = CHR ''/''")
    case True
    then show ?thesis using Cons by (simp add: joinSlash_Cons splitSlash_not_Nil)
  next
    case False
    obtain x xs where s: "splitSlash s = x # xs"
      using splitSlash_not_Nil[of s] by (cases "splitSlash s") auto
    show ?thesis using False Cons s by (cases xs) simp_all
  qed
qed

lemma splitSlash_no_separator: "CHR ''/'' \<notin> set s \<Longrightarrow> splitSlash s = [s]"
  by (induction s) auto

lemma splitSlash_prefix:
  "CHR ''/'' \<notin> set p \<Longrightarrow> splitSlash (p @ CHR ''/'' # s) = p # splitSlash s"
  by (induction p) auto

lemma splitSlash_suffix:
  "CHR ''/'' \<notin> set ys \<Longrightarrow>
   splitSlash (xs @ ys) = butlast (splitSlash xs) @ [last (splitSlash xs) @ ys]"
proof (induction xs)
  case Nil
  then show ?case by (simp add: splitSlash_no_separator)
next
  case (Cons ch xs)
  obtain x rest where s: "splitSlash xs = x # rest"
    using splitSlash_not_Nil[of xs] by (cases "splitSlash xs") auto
  show ?case
  proof (cases rest)
    case Nil
    with Cons s show ?thesis by simp
  next
    case (Cons y ys')
    with Cons.IH Cons.prems s show ?thesis by simp
  qed
qed

lemma cleanElems_plain:
  "list_all (\<lambda>x. x \<noteq> [] \<and> x \<noteq> ''.'' \<and> x \<noteq> ''..'') xs \<Longrightarrow> cleanElems rooted out xs = out @ xs"
  by (induction xs arbitrary: out) simp_all

lemma filepath_Clean_plain:
  assumes "path \<noteq> []" and "hd path \<noteq> CHR ''/''"
    and "list_all (\<lambda>x. x \<noteq> [] \<and> x \<noteq> ''.'' \<and> x \<noteq> ''..'') (splitSlash path)"
  shows "filepath_Clean path = path"
  using assms
  by (cases path) (simp_all add: filepath_Clean_def Let_def cleanElems_plain joinSlash_splitSlash
      del: splitSlash.simps)

lemma key_of_plain_name:
  assumes "plainName nm"
  shows "filepath_Join [''logs'', nm @ ''.txt''] = ''logs/'' @ nm @ ''.txt''"
proof -
  let ?ok = "\<lambda>x::string. x \<noteq> [] \<and> x \<noteq> ''.'' \<and> x \<noteq> ''..''"
  have split: "splitSlash (''logs/'' @ nm @ ''.txt'') =
                 ''logs'' # butlast (splitSlash nm) @ [last (splitSlash nm) @ ''.txt'']"
    using splitSlash_prefix[of "''logs''" "nm @ ''.txt''"] splitSlash_suffix[of "''.txt''" nm]
    by simp
  have "?ok (last (splitSlash nm) @ ''.txt'')"
    by (auto dest: arg_cong[where f = length])
  then have "list_all ?ok (splitSlash (''logs/'' @ nm @ ''.txt''))"
    using assms unfolding split by (simp add: plainName_def)
  then have "filepath_Clean (''logs/'' @ nm @ ''.txt'') = ''logs/'' @ nm @ ''.txt''"
    by (intro filepath_Clean_plain) simp_all
  then show ?thesis by simp
qed

lemma writeAll_fields:
  "b (writeAll l ps) = b l @ concat ps"
  "bucket (writeAll l ps) = bucket l"
  "name (writeAll l ps) = name l"
  "writer.client (writeAll l ps) = writer.client l"
  by (induction ps arbitrary: l) (simp_all add: writeAll_def Write_def)

text \<open>
  C9, as the code has it.  Creating a log returns no error; after the chunks \<open>ps\<close> are
  written, closing the stream makes one \<^verbatim>\<open>PutObject\<close> call, whose body is the chunks in
  their order, with the bucket of the log store, visibility \<^verbatim>\<open>public-read\<close>, content type
  \<^verbatim>\<open>text/plain\<close> and the key \<^verbatim>\<open>filepath.Join("logs", name + ".txt")\<close>, and returns what the
  call returns.  That key is \<^verbatim>\<open>logs/<name>.txt\<close> for every plain name.  \<open>Open\<close> fails with
  the not-implemented error for every name.
\<close>

theorem Logs_write_then_close:
  "snd (Create l nm) = None \<and>
   Close (writeAll (fst (Create l nm)) ps) h =
     (Logs.client l h
        \<lparr>PutObjectInput.Bucket = Logs.Bucket l, Key = filepath_Join [''logs'', nm @ ''.txt''],
         ACL = ''public-read'', Body = concat ps, ContentLength = int (length (concat ps)),
         ContentType = ''text/plain''\<rparr>,
      h @ [\<lparr>PutObjectInput.Bucket = Logs.Bucket l, Key = filepath_Join [''logs'', nm @ ''.txt''],
            ACL = ''public-read'', Body = concat ps, ContentLength = int (length (concat ps)),
            ContentType = ''text/plain''\<rparr>]) \<and>
   (plainName nm \<longrightarrow> filepath_Join [''logs'', nm @ ''.txt''] = ''logs/'' @ nm @ ''.txt'') \<and>
   Open l nm = (None, Some ''s3 logs: read is not implemented yet'')"
proof (intro conjI impI)
  show "snd (Create l nm) = None" by (simp add: Create_def)
  show "Close (writeAll (fst (Create l nm)) ps) h =
     (Logs.client l h
        \<lparr>PutObjectInput.Bucket = Logs.Bucket l, Key = filepath_Join [''logs'', nm @ ''.txt''],
         ACL = ''public-read'', Body = concat ps, ContentLength = int (length (concat ps)),
         ContentType = ''text/plain''\<rparr>,
      h @ [\<lparr>PutObjectInput.Bucket = Logs.Bucket l, Key = filepath_Join [''logs'', nm @ ''.txt''],
            ACL = ''public-read'', Body = concat ps, ContentLength = int (length (concat ps)),
            ContentType = ''text/plain''\<rparr>])"
    by (simp add: Close_def writeAll_fields Create_def Let_def del: filepath_Join.simps)
  show "Open l nm = (None, Some ''s3 logs: read is not implemented yet'')"
    by (simp add: Open_def)
  assume "plainName nm"
  then show "filepath_Join [''logs'', nm @ ''.txt''] = ''logs/'' @ nm @ ''.txt''"
    by (rule key_of_plain_name)
qed

theorem Logs_write_then_close_witness:
  "plainName ''build-42'' \<and>
   Close (writeAll (fst (Create logs0 ''build-42'')) [''hello '', ''world'']) [] =
     (None,
      [\<lparr>PutObjectInput.Bucket = ''conveyor-logs'', Key = ''logs/build-42.txt'',
        ACL = ''public-read'', Body = ''hello world'', ContentLength = 11,
        ContentType = ''text/plain''\<rparr>]) \<and>
   Open logs0 ''build-42'' = (None, Some ''s3 logs: read is not implemented yet'')"
proof -
  have p: "plainName ''build-42''" by code_simp
  note T = Logs_write_then_close[of logs0 "''build-42''" "[''hello '', ''world'']" "[]"]
  from T[THEN conjunct2, THEN conjunct2, THEN conjunct1, THEN mp, OF p]
  have k: "filepath_Join [''logs'', ''build-42'' @ ''.txt''] = ''logs/'' @ ''build-42'' @ ''.txt''" .
  from T[THEN conjunct2, THEN conjunct1]
  have c: "Close (writeAll (fst (Create logs0 ''build-42'')) [''hello '', ''world'']) [] =
     (None,
      [\<lparr>PutObjectInput.Bucket = ''conveyor-logs'', Key = ''logs/build-42.txt'',
        ACL = ''public-read'', Body = ''hello world'', ContentLength = 11,
        ContentType = ''text/plain''\<rparr>])"
    unfolding k by (simp add: logs0_def)
  from T[THEN conjunct2, THEN conjunct2, THEN conjunct2] p c show ?thesis by blast
qed

text \<open>
  C9 as the claim states it fails for names that are not plain: \<^verbatim>\<open>filepath.Join\<close> cleans
  the path, so the log named \<^verbatim>\<open>../x\<close> is written to the key \<^verbatim>\<open>x.txt\<close>, outside
  \<^verbatim>\<open>logs/\<close>, and the log named \<^verbatim>\<open>a//b\<close> to the key \<^verbatim>\<open>logs/a/b.txt\<close>.
\<close>

theorem Logs_key_is_cleaned:
  "map Key (snd (Close (writeAll (fst (Create logs0 ''../x'')) [''hello'']) [])) = [''x.txt''] \<and>
   ''x.txt'' \<noteq> ''logs/'' @ ''../x'' @ ''.txt'' \<and>
   map Key (snd (Close (writeAll (fst (Create logs0 ''a//b'')) [''hello'']) [])) = [''logs/a/b.txt''] \<and>
   ''logs/a/b.txt'' \<noteq> ''logs/'' @ ''a//b'' @ ''.txt''"
proof (intro conjI)
  show "map Key (snd (Close (writeAll (fst (Create logs0 ''../x'')) [''hello'']) [])) = [''x.txt'']"
    by code_simp
  show "map Key (snd (Close (writeAll (fst (Create logs0 ''a//b'')) [''hello'']) [])) =
          [''logs/a/b.txt'']"
    by code_simp
  show "''x.txt'' \<noteq> ''logs/'' @ ''../x'' @ ''.txt''" by simp
  show "''logs/a/b.txt'' \<noteq> ''logs/'' @ ''a//b'' @ ''.txt''" by simp
qed

end
